theory Spec2Isabelle
  imports Complex_Main "HOL-Library.Monad_Syntax"
begin

section \<open>Numeric model of the tensor operations used by the PPO graph\<close>

text \<open>
  The source (\<^verbatim>\<open>python/unitytrainers/ppo/models.py\<close>) assembles a TensorFlow graph.
  The embedding gives every graph node its value as a function of the values fed to the
  placeholders and variables it depends on.

  \<^item> A \<^verbatim>\<open>float32\<close> is read as a \<^typ>\<open>real\<close>: rounding, overflow and infinities are
    not modelled. Where the real-valued reading has no value because the float
    computation is \<^verbatim>\<open>0/0\<close> (the mean of an empty tensor, a decay over zero steps), the
    result is the explicit value \<open>NaN\<close>.
  \<^item> A rank-1 tensor of shape \<^verbatim>\<open>[N]\<close> is a \<^typ>\<open>real list\<close>; a rank-2 tensor of shape
    \<^verbatim>\<open>[N, A]\<close> is the list of its \<open>N\<close> rows.
  \<^item> An operation that TensorFlow rejects because the shapes of its operands are
    incompatible returns \<^term>\<open>None\<close>.
\<close>

datatype scalar = Val real | NaN

fun lift1 :: "(real \<Rightarrow> real) \<Rightarrow> scalar \<Rightarrow> scalar" where
  "lift1 f (Val x) = Val (f x)"
| "lift1 f NaN = NaN"

fun lift2 :: "(real \<Rightarrow> real \<Rightarrow> real) \<Rightarrow> scalar \<Rightarrow> scalar \<Rightarrow> scalar" where
  "lift2 f (Val x) (Val y) = Val (f x y)"
| "lift2 f _ _ = NaN"

text \<open>The stabilising constant \<^verbatim>\<open>1e-10\<close> of the source.\<close>

definition tiny :: real where
  "tiny = 1 / 10 ^ 10"

text \<open>
  Element-wise binary operations broadcast: two dimensions are compatible when they are
  equal or one of them is 1, and the dimension of size 1 is stretched.
\<close>

definition broadcast :: "('a \<Rightarrow> 'b \<Rightarrow> 'c) \<Rightarrow> 'a list \<Rightarrow> 'b list \<Rightarrow> 'c list option" where
  "broadcast f xs ys =
     (if length xs = length ys then Some (map2 f xs ys)
      else if length xs = 1 then Some (map (f (hd xs)) ys)
      else if length ys = 1 then Some (map (\<lambda>x. f x (hd ys)) xs)
      else None)"

definition broadcast2 ::
  "('a \<Rightarrow> 'b \<Rightarrow> 'c) \<Rightarrow> 'a list list \<Rightarrow> 'b list list \<Rightarrow> 'c list list option" where
  "broadcast2 f X Y = Option.bind (broadcast (broadcast f) X Y) those"

text \<open>
  \<^verbatim>\<open>tf.clip_by_value(t, lo, hi)\<close> is \<^verbatim>\<open>maximum(minimum(t, hi), lo)\<close>.
\<close>

definition clip_by_value :: "real \<Rightarrow> real \<Rightarrow> real \<Rightarrow> real" where
  "clip_by_value t clip_value_min clip_value_max = max (min t clip_value_max) clip_value_min"

definition squared_difference :: "real \<Rightarrow> real \<Rightarrow> real" where
  "squared_difference x y = (x - y) * (x - y)"

text \<open>\<^verbatim>\<open>tf.reduce_sum(t, axis=1)\<close> on a rank-2 tensor: one sum per row.\<close>

definition reduce_sum_axis1 :: "real list list \<Rightarrow> real list" where
  "reduce_sum_axis1 X = map sum_list X"

text \<open>
  \<^verbatim>\<open>tf.reduce_mean(t)\<close> over all elements. On an empty tensor the float computation is
  \<^verbatim>\<open>0/0\<close>.
\<close>

definition reduce_mean :: "real list \<Rightarrow> scalar" where
  "reduce_mean xs = (if xs = [] then NaN else Val (sum_list xs / real (length xs)))"

text \<open>
  \<^verbatim>\<open>tf.boolean_mask(t, mask)\<close> keeps the entries of \<open>t\<close> along its first dimension at
  which the mask is true; the mask must have the length of that dimension.
\<close>

definition boolean_mask :: "'a list \<Rightarrow> bool list \<Rightarrow> 'a list option" where
  "boolean_mask t msk =
     (if length msk = length t then Some (map fst (filter snd (zip t msk))) else None)"

text \<open>
  \<^verbatim>\<open>tf.train.polynomial_decay(learning_rate, global_step, decay_steps,
  end_learning_rate, power)\<close> with \<^verbatim>\<open>cycle=False\<close>: the step is first capped at
  \<open>decay_steps\<close>, then
  \<^verbatim>\<open>(learning_rate - end_learning_rate) * (1 - step / decay_steps) ^ power + end_learning_rate\<close>.
  The step counter is a non-negative integer, so with \<open>decay_steps = 0\<close> the quotient is
  \<^verbatim>\<open>0/0\<close>.
\<close>

definition polynomial_decay :: "real \<Rightarrow> nat \<Rightarrow> real \<Rightarrow> real \<Rightarrow> real \<Rightarrow> scalar" where
  "polynomial_decay learning_rate global_step decay_steps end_learning_rate pw =
     (if decay_steps = 0 then NaN
      else let step = min (real global_step) decay_steps;
               p = step / decay_steps
           in Val ((learning_rate - end_learning_rate) * (1 - p) powr pw
                   + end_learning_rate))"

section \<open>The PPO optimizer graph: \<^verbatim>\<open>create_ppo_optimizer\<close>\<close>

subsection \<open>Schedules\<close>

text \<open>
  \<^verbatim>\<open>self.learning_rate = tf.train.polynomial_decay(lr, self.global_step, max_step, 1e-10, power=1.0)\<close>
  \<^verbatim>\<open>decay_epsilon = tf.train.polynomial_decay(epsilon, self.global_step, max_step, 0.1, power=1.0)\<close>
  \<^verbatim>\<open>decay_beta = tf.train.polynomial_decay(beta, self.global_step, max_step, 1e-5, power=1.0)\<close>
\<close>

definition learning_rate :: "real \<Rightarrow> real \<Rightarrow> nat \<Rightarrow> scalar" where
  "learning_rate lr max_step global_step = polynomial_decay lr global_step max_step tiny 1"

definition decay_epsilon :: "real \<Rightarrow> real \<Rightarrow> nat \<Rightarrow> scalar" where
  "decay_epsilon epsilon max_step global_step =
     polynomial_decay epsilon global_step max_step (1 / 10) 1"

definition decay_beta :: "real \<Rightarrow> real \<Rightarrow> nat \<Rightarrow> scalar" where
  "decay_beta beta max_step global_step =
     polynomial_decay beta global_step max_step (1 / 10 ^ 5) 1"

subsection \<open>Inputs of the loss nodes\<close>

text \<open>
  The tensors the loss nodes read in one run: the outputs of the policy and value
  network (\<open>probs\<close>, \<open>old_probs\<close> of shape \<^verbatim>\<open>[N, A]\<close>, \<open>value\<close> of shape \<^verbatim>\<open>[N, 1]\<close>,
  \<open>entropy\<close> of shape \<^verbatim>\<open>[N]\<close>) and the placeholders \<^verbatim>\<open>returns_holder\<close> (\<^verbatim>\<open>[N]\<close>),
  \<^verbatim>\<open>advantage\<close> (\<^verbatim>\<open>[N, 1]\<close>), \<^verbatim>\<open>old_value\<close> (\<^verbatim>\<open>[N]\<close>) and \<^verbatim>\<open>mask_input\<close> (\<^verbatim>\<open>[N]\<close>).
  The loss nodes below take the current values of the nodes \<^verbatim>\<open>decay_epsilon\<close> and
  \<^verbatim>\<open>decay_beta\<close> as real arguments.
\<close>

record batch =
  probs :: "real list list"
  old_probs :: "real list list"
  "value" :: "real list list"
  entropy :: "real list"
  returns_holder :: "real list"
  advantage :: "real list list"
  old_value :: "real list"
  mask_input :: "real list"

text \<open>\<^verbatim>\<open>self.mask = tf.equal(self.mask_input, 1.0)\<close>\<close>

definition mask_of :: "real list \<Rightarrow> bool list" where
  "mask_of m = map (\<lambda>x. x = 1) m"

subsection \<open>Value loss\<close>

text \<open>
  \<^verbatim>\<open>clipped_value_estimate = self.old_value + tf.clip_by_value(
      tf.reduce_sum(value, axis=1) - self.old_value, - decay_epsilon, decay_epsilon)\<close>
  \<^verbatim>\<open>v_opt_a = tf.squared_difference(self.returns_holder, tf.reduce_sum(value, axis=1))\<close>
  \<^verbatim>\<open>v_opt_b = tf.squared_difference(self.returns_holder, clipped_value_estimate)\<close>
  \<^verbatim>\<open>self.value_loss = tf.reduce_mean(tf.boolean_mask(tf.maximum(v_opt_a, v_opt_b), self.mask))\<close>
\<close>

definition clipped_value_estimate :: "batch \<Rightarrow> real \<Rightarrow> real list option" where
  "clipped_value_estimate b eps = do {
     d \<leftarrow> broadcast (-) (reduce_sum_axis1 (value b)) (old_value b);
     broadcast (+) (old_value b) (map (\<lambda>x. clip_by_value x (- eps) eps) d)
   }"

definition v_opt_a :: "batch \<Rightarrow> real list option" where
  "v_opt_a b = broadcast squared_difference (returns_holder b) (reduce_sum_axis1 (value b))"

definition v_opt_b :: "batch \<Rightarrow> real \<Rightarrow> real list option" where
  "v_opt_b b eps = do {
     c \<leftarrow> clipped_value_estimate b eps;
     broadcast squared_difference (returns_holder b) c
   }"

definition value_loss :: "batch \<Rightarrow> real \<Rightarrow> scalar option" where
  "value_loss b eps = do {
     va \<leftarrow> v_opt_a b;
     vb \<leftarrow> v_opt_b b eps;
     m \<leftarrow> broadcast max va vb;
     sel \<leftarrow> boolean_mask m (mask_of (mask_input b));
     Some (reduce_mean sel)
   }"

subsection \<open>Policy loss\<close>

text \<open>
  \<^verbatim>\<open>self.r_theta = probs / (old_probs + 1e-10)\<close>
  \<^verbatim>\<open>self.p_opt_a = self.r_theta * self.advantage\<close>
  \<^verbatim>\<open>self.p_opt_b = tf.clip_by_value(self.r_theta, 1.0 - decay_epsilon, 1.0 + decay_epsilon) * self.advantage\<close>
  \<^verbatim>\<open>self.policy_loss = -tf.reduce_mean(tf.boolean_mask(tf.minimum(self.p_opt_a, self.p_opt_b), self.mask))\<close>

  The quotient is the real one, so the model describes the graph where no denominator
  \<open>old_probs + 1e-10\<close> is zero.
\<close>

definition r_theta :: "batch \<Rightarrow> real list list option" where
  "r_theta b = broadcast2 (/) (probs b) (map (map (\<lambda>x. x + tiny)) (old_probs b))"

definition p_opt_a :: "batch \<Rightarrow> real list list option" where
  "p_opt_a b = do {
     r \<leftarrow> r_theta b;
     broadcast2 (*) r (advantage b)
   }"

definition p_opt_b :: "batch \<Rightarrow> real \<Rightarrow> real list list option" where
  "p_opt_b b eps = do {
     r \<leftarrow> r_theta b;
     broadcast2 (*) (map (map (\<lambda>x. clip_by_value x (1 - eps) (1 + eps))) r) (advantage b)
   }"

definition policy_loss :: "batch \<Rightarrow> real \<Rightarrow> scalar option" where
  "policy_loss b eps = do {
     pa \<leftarrow> p_opt_a b;
     pb \<leftarrow> p_opt_b b eps;
     m \<leftarrow> broadcast2 min pa pb;
     sel \<leftarrow> boolean_mask m (mask_of (mask_input b));
     Some (lift1 uminus (reduce_mean (concat sel)))
   }"

subsection \<open>Total loss\<close>

text \<open>
  \<^verbatim>\<open>self.loss = self.policy_loss + 0.5 * self.value_loss - decay_beta * tf.reduce_mean(
      tf.boolean_mask(entropy, self.mask))\<close>
  \<^verbatim>\<open>if self.use_curiosity:\<close>
  \<^verbatim>\<open>    self.loss += 10 * (0.2 * self.forward_loss + 0.8 * self.inverse_loss)\<close>

  \<open>forward_loss\<close> and \<open>inverse_loss\<close> are the values of the two curiosity nodes in the
  same run; they are read only when \<open>use_curiosity\<close> holds.
\<close>

definition masked_entropy_mean :: "batch \<Rightarrow> scalar option" where
  "masked_entropy_mean b = do {
     sel \<leftarrow> boolean_mask (entropy b) (mask_of (mask_input b));
     Some (reduce_mean sel)
   }"

text \<open>
  The node \<^verbatim>\<open>self.loss\<close> as a function of the values of the nodes \<^verbatim>\<open>decay_epsilon\<close> (a
  number) and \<^verbatim>\<open>decay_beta\<close>.
\<close>

definition loss_node ::
  "bool \<Rightarrow> scalar option \<Rightarrow> scalar option \<Rightarrow> batch \<Rightarrow> real \<Rightarrow> scalar \<Rightarrow> scalar option" where
  "loss_node use_curiosity forward_loss inverse_loss b eps dbeta = do {
     pl \<leftarrow> policy_loss b eps;
     vl \<leftarrow> value_loss b eps;
     me \<leftarrow> masked_entropy_mean b;
     let l = lift2 (-) (lift2 (+) pl (lift2 (*) (Val 0.5) vl)) (lift2 (*) dbeta me);
     if use_curiosity then do {
       fl \<leftarrow> forward_loss;
       il \<leftarrow> inverse_loss;
       Some (lift2 (+) l
               (lift2 (*) (Val 10) (lift2 (+) (lift2 (*) (Val 0.2) fl) (lift2 (*) (Val 0.8) il))))
     } else Some l
   }"

text \<open>
  The node \<^verbatim>\<open>self.loss\<close> in a run at step \<open>global_step\<close>, for the constructor arguments
  \<open>epsilon\<close>, \<open>beta\<close> and \<open>max_step\<close>: the clip range and the entropy coefficient are the
  values of the two schedules at that step. The two schedules are NaN together (when
  \<open>max_step = 0\<close>); the product \<^verbatim>\<open>decay_beta * ...\<close> and with it the loss are then NaN,
  whenever the shapes are accepted.
\<close>

definition loss ::
  "bool \<Rightarrow> scalar option \<Rightarrow> scalar option \<Rightarrow> batch \<Rightarrow> real \<Rightarrow> real \<Rightarrow> real \<Rightarrow> nat
     \<Rightarrow> scalar option" where
  "loss use_curiosity forward_loss inverse_loss b epsilon beta max_step global_step =
     (case decay_epsilon epsilon max_step global_step of
        Val eps \<Rightarrow>
          loss_node use_curiosity forward_loss inverse_loss b eps
            (decay_beta beta max_step global_step)
      | NaN \<Rightarrow>
          map_option (\<lambda>l. NaN) (loss_node use_curiosity forward_loss inverse_loss b 0 NaN))"

section \<open>The losses as sums over timesteps\<close>

text \<open>
  The timesteps that contribute to a loss are those whose mask entry is exactly 1.
\<close>

definition masked_timesteps :: "real list \<Rightarrow> nat list" where
  "masked_timesteps m = filter (\<lambda>t. m ! t = 1) [0..<length m]"

text \<open>
  The value estimate of timestep \<open>t\<close> is the sum of row \<open>t\<close> of \<open>value\<close> (its single entry,
  for the \<^verbatim>\<open>[N, 1]\<close> output of the value head). Its contribution to the value loss is
  the larger of the squared error of that estimate and the squared error of the old
  estimate moved by the change clipped to \<open>\<plusminus>eps\<close>.
\<close>

definition value_term :: "batch \<Rightarrow> real \<Rightarrow> nat \<Rightarrow> real" where
  "value_term b eps t =
     (let ret = returns_holder b ! t; v = sum_list (value b ! t); old = old_value b ! t
      in max ((ret - v)\<^sup>2) ((ret - (old + clip_by_value (v - old) (- eps) eps))\<^sup>2))"

definition value_loss_spec :: "batch \<Rightarrow> real \<Rightarrow> scalar" where
  "value_loss_spec b eps =
     reduce_mean (map (value_term b eps) (masked_timesteps (mask_input b)))"

text \<open>
  Entry \<open>j\<close> of timestep \<open>t\<close> contributes the smaller of the unclipped and the clipped
  surrogate objective; the advantage of the timestep is the single entry of row \<open>t\<close> of
  \<open>advantage\<close>.
\<close>

definition policy_term :: "batch \<Rightarrow> real \<Rightarrow> nat \<Rightarrow> nat \<Rightarrow> real" where
  "policy_term b eps t j =
     (let r = probs b ! t ! j / (old_probs b ! t ! j + tiny); a = hd (advantage b ! t)
      in min (r * a) (clip_by_value r (1 - eps) (1 + eps) * a))"

definition policy_loss_spec :: "batch \<Rightarrow> real \<Rightarrow> scalar" where
  "policy_loss_spec b eps =
     lift1 uminus (reduce_mean (concat (map
        (\<lambda>t. map (policy_term b eps t) [0..<length (probs b ! t)])
        (masked_timesteps (mask_input b)))))"

text \<open>The mean of the entropy over the timesteps whose mask is 1.\<close>

definition masked_entropy_mean_spec :: "batch \<Rightarrow> scalar" where
  "masked_entropy_mean_spec b =
     reduce_mean (map (\<lambda>t. entropy b ! t) (masked_timesteps (mask_input b)))"

definition masked_advantage_mean :: "batch \<Rightarrow> scalar" where
  "masked_advantage_mean b =
     reduce_mean (map (\<lambda>t. hd (advantage b ! t)) (masked_timesteps (mask_input b)))"

section \<open>The curiosity module: values of the loss nodes\<close>

subsection \<open>Dense layers\<close>

text \<open>
  \<^verbatim>\<open>tf.layers.dense(inputs, units, activation)\<close> computes
  \<^verbatim>\<open>activation(matmul(inputs, kernel) + bias)\<close> row by row. The kernel (of shape
  \<^verbatim>\<open>[input width, units]\<close>) and the bias (of shape \<^verbatim>\<open>[units]\<close>) are the trainable
  variables of the layer.
\<close>

record dense_vars =
  kernel :: "real list list"
  bias :: "real list"

definition dense ::
  "dense_vars \<Rightarrow> nat \<Rightarrow> (real list \<Rightarrow> real list) \<Rightarrow> real list list \<Rightarrow> real list list" where
  "dense w units activation inputs =
     map (\<lambda>x. activation
            (map (\<lambda>j. sum_list (map2 (\<lambda>xi row. xi * row ! j) x (kernel w)) + bias w ! j)
               [0..<units]))
       inputs"

text \<open>\<^verbatim>\<open>tf.nn.softmax\<close> along the last axis.\<close>

definition softmax :: "real list \<Rightarrow> real list" where
  "softmax zs = map (\<lambda>z. exp z / sum_list (map exp zs)) zs"

subsection \<open>Inverse model\<close>

text \<open>
  Continuous actions:
  \<^verbatim>\<open>pred_action = tf.layers.dense(combined_input, a_size, activation=None)\<close>
  \<^verbatim>\<open>squared_difference = tf.reduce_sum(tf.squared_difference(pred_action, self.selected_actions), axis=1)\<close>
  \<^verbatim>\<open>self.inverse_loss = tf.reduce_mean(squared_difference)\<close>

  Discrete actions:
  \<^verbatim>\<open>pred_action = tf.layers.dense(combined_input, a_size, activation=tf.nn.softmax)\<close>
  \<^verbatim>\<open>cross_entropy = tf.reduce_sum(-tf.log(pred_action + 1e-10) * self.selected_actions, axis=1)\<close>
  \<^verbatim>\<open>self.inverse_loss = tf.reduce_mean(cross_entropy)\<close>

  The loss nodes are functions of the tensor \<open>pred_action\<close>, whose value in a run is
  the output of the dense layer.
\<close>

definition pred_action_continuous :: "dense_vars \<Rightarrow> nat \<Rightarrow> real list list \<Rightarrow> real list list" where
  "pred_action_continuous w a_size combined_input = dense w a_size (\<lambda>z. z) combined_input"

definition inverse_loss_continuous :: "real list list \<Rightarrow> real list list \<Rightarrow> scalar option" where
  "inverse_loss_continuous pred_action selected_actions = do {
     d \<leftarrow> broadcast2 squared_difference pred_action selected_actions;
     Some (reduce_mean (reduce_sum_axis1 d))
   }"

definition pred_action_discrete :: "dense_vars \<Rightarrow> nat \<Rightarrow> real list list \<Rightarrow> real list list" where
  "pred_action_discrete w a_size combined_input = dense w a_size softmax combined_input"

definition cross_entropy :: "real list list \<Rightarrow> real list list \<Rightarrow> real list option" where
  "cross_entropy pred_action selected_actions = do {
     m \<leftarrow> broadcast2 (*) (map (map (\<lambda>p. - ln (p + tiny))) pred_action) selected_actions;
     Some (reduce_sum_axis1 m)
   }"

definition inverse_loss_discrete :: "real list list \<Rightarrow> real list list \<Rightarrow> scalar option" where
  "inverse_loss_discrete pred_action selected_actions = do {
     ce \<leftarrow> cross_entropy pred_action selected_actions;
     Some (reduce_mean ce)
   }"

subsection \<open>Forward model\<close>

text \<open>
  \<^verbatim>\<open>hidden = tf.layers.dense(combined_input, 128, activation=self.swish)\<close>
  \<^verbatim>\<open>pred_next_state = tf.layers.dense(hidden, 128, activation=None)\<close>
  \<^verbatim>\<open>squared_difference = 0.5 * tf.reduce_sum(tf.squared_difference(pred_next_state, encoded_next_state), axis=1)\<close>
  \<^verbatim>\<open>self.intrinsic_reward = 0.01 * squared_difference\<close>
  \<^verbatim>\<open>self.forward_loss = tf.reduce_mean(squared_difference)\<close>

  \<open>swish\<close> is defined outside this file; it is a parameter, applied to each entry.
\<close>

definition pred_next_state ::
  "dense_vars \<Rightarrow> dense_vars \<Rightarrow> (real \<Rightarrow> real) \<Rightarrow> real list list \<Rightarrow> real list list" where
  "pred_next_state w_hidden w_out swish combined_input =
     (let hidden = dense w_hidden 128 (map swish) combined_input
      in dense w_out 128 (\<lambda>z. z) hidden)"

definition forward_squared_difference :: "real list list \<Rightarrow> real list list \<Rightarrow> real list option" where
  "forward_squared_difference pred encoded_next_state = do {
     d \<leftarrow> broadcast2 squared_difference pred encoded_next_state;
     Some (map (\<lambda>x. 0.5 * x) (reduce_sum_axis1 d))
   }"

definition intrinsic_reward :: "real list list \<Rightarrow> real list list \<Rightarrow> real list option" where
  "intrinsic_reward pred encoded_next_state = do {
     sd \<leftarrow> forward_squared_difference pred encoded_next_state;
     Some (map (\<lambda>x. 0.01 * x) sd)
   }"

definition forward_loss :: "real list list \<Rightarrow> real list list \<Rightarrow> scalar option" where
  "forward_loss pred encoded_next_state = do {
     sd \<leftarrow> forward_squared_difference pred encoded_next_state;
     Some (reduce_mean sd)
   }"

subsection \<open>The curiosity losses per example\<close>

text \<open>
  The sum of squared differences between the predicted and the actual next-state
  encoding of example \<open>t\<close>, over the \<open>W\<close> entries of the encoding.
\<close>

definition sum_squared_differences :: "real list list \<Rightarrow> real list list \<Rightarrow> nat \<Rightarrow> nat \<Rightarrow> real" where
  "sum_squared_differences pred enc W t =
     sum_list (map (\<lambda>j. (pred ! t ! j - enc ! t ! j)\<^sup>2) [0..<W])"

text \<open>
  The cross-entropy of example \<open>t\<close> between the predicted distribution and the taken
  action, over the \<open>A\<close> actions, with \<^verbatim>\<open>1e-10\<close> inside the logarithm.
\<close>

definition cross_entropy_term :: "real list list \<Rightarrow> real list list \<Rightarrow> nat \<Rightarrow> nat \<Rightarrow> real" where
  "cross_entropy_term pred sel A t =
     sum_list (map (\<lambda>j. - ln (pred ! t ! j + tiny) * sel ! t ! j) [0..<A])"

text \<open>A one-hot row: every entry is 0 or 1 and the entries sum to 1.\<close>

definition one_hot :: "real list \<Rightarrow> bool" where
  "one_hot row \<longleftrightarrow> list_all (\<lambda>x. x = 0 \<or> x = 1) row \<and> sum_list row = 1"

text \<open>A probability distribution over \<open>A\<close> actions with full support.\<close>

definition distribution :: "nat \<Rightarrow> real list \<Rightarrow> bool" where
  "distribution A row \<longleftrightarrow> length row = A \<and> list_all (\<lambda>p. 0 < p) row \<and> sum_list row = 1"

section \<open>Graph construction\<close>

text \<open>
  Construction is modelled on the static shapes: a rank-2 tensor of shape \<^verbatim>\<open>[None, w]\<close>
  is the list of its column blocks, each block a feature with its width, so that the
  order of a concatenation stays visible. An exception raised during construction is a
  value of type \<open>error\<close>.
\<close>

subsection \<open>The brain and the constructor arguments\<close>

record camera =
  height :: int
  width :: int
  blackAndWhite :: bool

record brain =
  vector_observation_space_size :: int
  num_stacked_vector_observations :: int
  vector_action_space_size :: int
  vector_action_space_type :: string
  number_visual_observations :: int
  camera_resolutions :: "camera list"

text \<open>
  The keyword arguments of \<^verbatim>\<open>PPOModel.__init__\<close>; \<open>normalize_flag\<close> is the argument
  \<^verbatim>\<open>normalize\<close>, and \<open>m_size\<close> is the width of the recurrent state, which is read only
  when \<open>use_recurrent\<close> holds.
\<close>

record arguments =
  lr :: real
  h_size :: int
  epsilon :: real
  beta :: real
  max_step :: real
  normalize_flag :: bool
  use_recurrent :: bool
  num_layers :: int
  m_size :: nat
  use_curiosity :: bool

subsection \<open>Static tensors and construction errors\<close>

datatype stage = Current | Next

datatype feature =
    VisualFeatures stage nat
  | VectorFeatures stage
  | MemoryIn
  | SelectedActions

type_synonym tensor = "(feature \<times> nat) list"

definition tensor_width :: "tensor \<Rightarrow> nat" where
  "tensor_width t = sum_list (map snd t)"

text \<open>
  \<open>IndexError\<close>: a list index out of range. \<open>ConcatOfNothing\<close>: the \<^verbatim>\<open>ValueError\<close> of
  \<^verbatim>\<open>tf.concat\<close> on an empty list of tensors. \<open>IncompatibleShapes a b\<close>: the \<^verbatim>\<open>ValueError\<close>
  of shape inference when an element-wise operation meets widths \<open>a\<close> and \<open>b\<close> that do
  not broadcast. \<open>BuilderError\<close>: an exception raised inside a builder of the base class.
\<close>

datatype error = IndexError | ConcatOfNothing | IncompatibleShapes nat nat | BuilderError

definition and_then :: "error + 'a \<Rightarrow> ('a \<Rightarrow> error + 'b) \<Rightarrow> error + 'b" where
  "and_then r f = (case r of Inl e \<Rightarrow> Inl e | Inr x \<Rightarrow> f x)"

text \<open>\<^verbatim>\<open>tf.concat(values, axis=1)\<close>\<close>

definition tf_concat :: "tensor list \<Rightarrow> error + tensor" where
  "tf_concat values = (if values = [] then Inl ConcatOfNothing else Inr (concat values))"

datatype activation = Linear | Swish | Softmax

record layer =
  units :: nat
  activation :: activation

subsection \<open>Builders defined outside this file\<close>

text \<open>
  The base class \<^verbatim>\<open>LearningModel\<close> (\<^verbatim>\<open>unitytrainers.models\<close>) is not part of the source
  at hand. The parts of it that the constructor and the curiosity module call are
  modelled below, each by what it contributes to the static shapes.
\<close>

text \<open>
  Modelled from the spec: \<^verbatim>\<open>create_visual_observation_encoder(image_input, h_size,
  activation, num_layers, scope, reuse)\<close> of \<^verbatim>\<open>LearningModel\<close> is missing. The spec
  describes the encoders as layers of width \<open>h_size\<close>: the call returns one block of
  visual features of width \<open>h_size\<close>. The input is identified by its stage (current or
  next observation) and the index of its camera.
\<close>

definition create_visual_observation_encoder :: "stage \<Rightarrow> nat \<Rightarrow> nat \<Rightarrow> tensor" where
  "create_visual_observation_encoder st i hsize = [(VisualFeatures st i, hsize)]"

text \<open>
  Modelled from the spec: \<^verbatim>\<open>create_continuous_observation_encoder(observation_input,
  h_size, activation, num_layers, scope, reuse)\<close> of \<^verbatim>\<open>LearningModel\<close> is missing. As
  an encoder of width \<open>h_size\<close> it returns one block of vector features of width
  \<open>h_size\<close>; the input is identified by its stage.
\<close>

definition create_continuous_observation_encoder :: "stage \<Rightarrow> nat \<Rightarrow> tensor" where
  "create_continuous_observation_encoder st hsize = [(VectorFeatures st, hsize)]"

text \<open>
  Modelled from the spec: the placeholder \<^verbatim>\<open>self.memory_in\<close>, created by
  \<^verbatim>\<open>LearningModel\<close>, is missing. The spec gives it the width of the recurrent state,
  \<open>m_size\<close>.
\<close>

definition memory_in :: "nat \<Rightarrow> tensor" where
  "memory_in msize = [(MemoryIn, msize)]"

text \<open>
  Modelled from the spec: the tensor \<^verbatim>\<open>self.selected_actions\<close>, created by
  \<^verbatim>\<open>LearningModel\<close>, is missing. It holds the taken action (one-hot for discrete
  actions), of the width of the action space.
\<close>

definition selected_actions :: "int \<Rightarrow> tensor" where
  "selected_actions a_size = [(SelectedActions, nat a_size)]"

text \<open>
  The policy and value network is built by \<^verbatim>\<open>create_cc_actor_critic(h_size, num_layers)\<close>
  for continuous and by \<^verbatim>\<open>create_dc_actor_critic(h_size, num_layers)\<close> for discrete
  actions. The model records which of the two was called and with which arguments.
\<close>

datatype actor_critic = ContinuousControl int int | DiscreteControl int int

text \<open>
  Modelled from the spec: \<^verbatim>\<open>create_cc_actor_critic\<close> of \<^verbatim>\<open>LearningModel\<close> is missing; the
  spec says that the network for continuous actions is built from the hidden size and
  the number of hidden layers.
\<close>

definition create_cc_actor_critic :: "int \<Rightarrow> int \<Rightarrow> actor_critic" where
  "create_cc_actor_critic hsize nlayers = ContinuousControl hsize nlayers"

text \<open>
  Modelled from the spec: \<^verbatim>\<open>create_dc_actor_critic\<close> of \<^verbatim>\<open>LearningModel\<close> is missing; the
  spec says that the network for discrete actions is built from the hidden size and
  the number of hidden layers.
\<close>

definition create_dc_actor_critic :: "int \<Rightarrow> int \<Rightarrow> actor_critic" where
  "create_dc_actor_critic hsize nlayers = DiscreteControl hsize nlayers"

subsection \<open>\<^verbatim>\<open>create_reward_encoder\<close>\<close>

text \<open>
  \<^verbatim>\<open>last_reward = tf.Variable(0, name="last_reward", trainable=False, dtype=tf.float32)\<close>
  \<^verbatim>\<open>new_reward = tf.placeholder(shape=[], dtype=tf.float32, name='new_reward')\<close>
  \<^verbatim>\<open>update_reward = tf.assign(last_reward, new_reward)\<close>

  The state of the tracker is the value of the variable; \<open>create_reward_encoder\<close> gives
  its initial value, and running \<open>update_reward\<close> with \<open>new_reward\<close> fed overwrites it.
\<close>

definition create_reward_encoder :: real where
  "create_reward_encoder = 0"

definition update_reward :: "real \<Rightarrow> real \<Rightarrow> real" where
  "update_reward new_reward old_reward = new_reward"

subsection \<open>\<^verbatim>\<open>create_inverse_model\<close>\<close>

text \<open>
  The loop over the cameras (\<^verbatim>\<open>for i in range(v_size)\<close>): it reads
  \<^verbatim>\<open>self.brain.camera_resolutions[i]\<close> and encodes the current and the next visual input
  of camera \<open>i\<close> with \<^verbatim>\<open>create_visual_observation_encoder(..., 128, self.swish, 1,
  "visual_obs_encoder", reuse)\<close>. The result is the pair of the lists
  \<^verbatim>\<open>visual_encoders\<close> and \<^verbatim>\<open>next_visual_encoders\<close>.
\<close>

fun encode_cameras :: "camera list \<Rightarrow> nat list \<Rightarrow> error + (tensor list \<times> tensor list)" where
  "encode_cameras cams [] = Inr ([], [])"
| "encode_cameras cams (i # is) =
     (if i < length cams
      then and_then (encode_cameras cams is) (\<lambda>(visual_encoders, next_visual_encoders).
             Inr (create_visual_observation_encoder Current i 128 # visual_encoders,
                  create_visual_observation_encoder Next i 128 # next_visual_encoders))
      else Inl IndexError)"

record inverse_model =
  combined_input :: tensor
  pred_action :: layer
  encoded_state :: tensor
  encoded_next_state :: tensor

text \<open>
  The three lists \<^verbatim>\<open>inverse_input_list\<close>, \<^verbatim>\<open>encoded_state\<close> and \<^verbatim>\<open>encoded_next_state\<close>
  after the visual part (\<^verbatim>\<open>if v_size > 0\<close>).
\<close>

definition visual_part ::
  "brain \<Rightarrow> error + (tensor list \<times> tensor list \<times> tensor list)" where
  "visual_part br =
     (let v_size = number_visual_observations br
      in if v_size > 0
         then and_then (encode_cameras (camera_resolutions br) [0..<nat v_size])
                (\<lambda>(visual_encoders, next_visual_encoders).
                   and_then (tf_concat visual_encoders) (\<lambda>hidden_visual.
                   and_then (tf_concat next_visual_encoders) (\<lambda>hidden_next_visual.
                     Inr ([hidden_visual, hidden_next_visual],
                          [hidden_visual], [hidden_next_visual]))))
         else Inr ([], [], []))"

text \<open>The same lists after the vector part (\<^verbatim>\<open>if o_size > 0\<close>).\<close>

definition vector_part ::
  "brain \<Rightarrow> tensor list \<times> tensor list \<times> tensor list
     \<Rightarrow> tensor list \<times> tensor list \<times> tensor list" where
  "vector_part br acc =
     (let o_size = vector_observation_space_size br * num_stacked_vector_observations br;
          (inverse_input_list, enc_state, enc_next_state) = acc
      in if o_size > 0
         then (let encoded_vector_obs = create_continuous_observation_encoder Current 128;
                   encoded_next_vector_obs = create_continuous_observation_encoder Next 128
               in (inverse_input_list @ [encoded_vector_obs, encoded_next_vector_obs],
                   enc_state @ [encoded_vector_obs],
                   enc_next_state @ [encoded_next_vector_obs]))
         else acc)"

text \<open>
  After the two parts:
  \<^verbatim>\<open>if self.use_recurrent:\<close>
  \<^verbatim>\<open>    inverse_input_list.append(self.memory_in)\<close>
  \<^verbatim>\<open>combined_input = tf.concat(inverse_input_list, axis=1)\<close>
  \<^verbatim>\<open>if self.brain.vector_action_space_type == "continuous":\<close>
  \<^verbatim>\<open>    pred_action = tf.layers.dense(combined_input, a_size, activation=None)\<close>
  \<^verbatim>\<open>else:\<close>
  \<^verbatim>\<open>    pred_action = tf.layers.dense(combined_input, a_size, activation=tf.nn.softmax)\<close>
  \<^verbatim>\<open>return tf.concat(encoded_state, axis=1), tf.concat(encoded_next_state, axis=1)\<close>

  The arguments \<open>recurrent\<close> and \<open>msize\<close> are \<^verbatim>\<open>self.use_recurrent\<close> and the width of
  \<^verbatim>\<open>self.memory_in\<close>.
\<close>

definition create_inverse_model :: "brain \<Rightarrow> bool \<Rightarrow> nat \<Rightarrow> error + inverse_model" where
  "create_inverse_model br recurrent msize =
     and_then (visual_part br) (\<lambda>acc.
       let a_size = vector_action_space_size br;
           (inverse_input_list, enc_state, enc_next_state) = vector_part br acc;
           inverse_input_list =
             (if recurrent then inverse_input_list @ [memory_in msize] else inverse_input_list)
       in and_then (tf_concat inverse_input_list) (\<lambda>combined.
            let pred = (if vector_action_space_type br = ''continuous''
                        then \<lparr>units = nat a_size, activation = Linear\<rparr>
                        else \<lparr>units = nat a_size, activation = Softmax\<rparr>)
            in and_then (tf_concat enc_state) (\<lambda>es.
               and_then (tf_concat enc_next_state) (\<lambda>ens.
                 Inr \<lparr>combined_input = combined, pred_action = pred,
                      encoded_state = es, encoded_next_state = ens\<rparr>))))"

subsection \<open>\<^verbatim>\<open>create_forward_model\<close>\<close>

text \<open>
  \<^verbatim>\<open>combined_input = tf.concat([encoded_state, self.selected_actions], axis=1)\<close>
  \<^verbatim>\<open>if self.use_recurrent:\<close>
  \<^verbatim>\<open>    combined_input = tf.concat([combined_input, self.memory_in], axis=1, name="special")\<close>
  \<^verbatim>\<open>hidden = tf.layers.dense(combined_input, 128, activation=self.swish)\<close>
  \<^verbatim>\<open>pred_next_state = tf.layers.dense(hidden, 128, activation=None)\<close>
  \<^verbatim>\<open>... tf.squared_difference(pred_next_state, encoded_next_state) ...\<close>

  \<^verbatim>\<open>tf.squared_difference\<close> broadcasts: shape inference accepts the widths 128 and \<open>w\<close>
  when they are equal or one of them is 1, and raises otherwise.
\<close>

record forward_model =
  forward_input :: tensor
  forward_layers :: "layer list"

definition create_forward_model ::
  "tensor \<Rightarrow> tensor \<Rightarrow> int \<Rightarrow> bool \<Rightarrow> nat \<Rightarrow> error + forward_model" where
  "create_forward_model enc_state enc_next_state a_size recurrent msize =
     and_then (tf_concat [enc_state, selected_actions a_size]) (\<lambda>combined.
     and_then (if recurrent then tf_concat [combined, memory_in msize] else Inr combined)
       (\<lambda>combined.
          let hidden = \<lparr>units = 128, activation = Swish\<rparr>;
              pred_next = \<lparr>units = 128, activation = Linear\<rparr>;
              w = tensor_width enc_next_state
          in if units pred_next = w \<or> w = 1
             then Inr \<lparr>forward_input = combined, forward_layers = [hidden, pred_next]\<rparr>
             else Inl (IncompatibleShapes (units pred_next) w)))"

subsection \<open>\<^verbatim>\<open>PPOModel.__init__\<close>\<close>

text \<open>
  \<^verbatim>\<open>if num_layers < 1: num_layers = 1\<close>
  \<^verbatim>\<open>self.last_reward, self.new_reward, self.update_reward = self.create_reward_encoder()\<close>
  \<^verbatim>\<open>if brain.vector_action_space_type == "continuous":\<close>
  \<^verbatim>\<open>    self.create_cc_actor_critic(h_size, num_layers)\<close>
  \<^verbatim>\<open>else:\<close>
  \<^verbatim>\<open>    self.create_dc_actor_critic(h_size, num_layers)\<close>
  \<^verbatim>\<open>if self.use_curiosity:\<close>
  \<^verbatim>\<open>    encoded_state, encoded_next_state = self.create_inverse_model()\<close>
  \<^verbatim>\<open>    self.create_forward_model(encoded_state, encoded_next_state)\<close>
  \<^verbatim>\<open>self.create_ppo_optimizer(...)\<close>

  The nodes made by \<^verbatim>\<open>create_ppo_optimizer\<close> are the functions of the sections above.
\<close>

record ppo_model =
  policy :: actor_critic
  last_reward :: real
  inverse :: "inverse_model option"
  forward :: "forward_model option"

text \<open>
  What the two builders of \<^verbatim>\<open>LearningModel\<close> do on a given brain is not in the source at
  hand. The constructor takes them as parameters: each receives the brain (which the
  builder reads through \<^verbatim>\<open>self.brain\<close>), the hidden size and the number of layers, and
  either raises or returns the network.
\<close>

record builders =
  build_cc :: "brain \<Rightarrow> int \<Rightarrow> int \<Rightarrow> error + actor_critic"
  build_dc :: "brain \<Rightarrow> int \<Rightarrow> int \<Rightarrow> error + actor_critic"

definition PPOModel_init_with :: "builders \<Rightarrow> brain \<Rightarrow> arguments \<Rightarrow> error + ppo_model" where
  "PPOModel_init_with base br args =
     (let nlayers = (if num_layers args < 1 then 1 else num_layers args);
          reward = create_reward_encoder
      in and_then
           (if vector_action_space_type br = ''continuous''
            then build_cc base br (h_size args) nlayers
            else build_dc base br (h_size args) nlayers)
           (\<lambda>ac.
         and_then
           (if use_curiosity args
            then and_then (create_inverse_model br (use_recurrent args) (m_size args)) (\<lambda>im.
                 and_then (create_forward_model (encoded_state im) (encoded_next_state im)
                             (vector_action_space_size br) (use_recurrent args) (m_size args))
                   (\<lambda>fm. Inr (Some im, Some fm)))
            else Inr (None, None))
           (\<lambda>(im, fm). Inr \<lparr>policy = ac, last_reward = reward, inverse = im, forward = fm\<rparr>)))"

text \<open>The builders that succeed on every brain, and the constructor with them.\<close>

definition succeeding_builders :: builders where
  "succeeding_builders =
     \<lparr>build_cc = (\<lambda>br hsize nlayers. Inr (create_cc_actor_critic hsize nlayers)),
      build_dc = (\<lambda>br hsize nlayers. Inr (create_dc_actor_critic hsize nlayers))\<rparr>"

definition PPOModel_init :: "brain \<Rightarrow> arguments \<Rightarrow> error + ppo_model" where
  "PPOModel_init br args = PPOModel_init_with succeeding_builders br args"

text \<open>
  The value read from \<^verbatim>\<open>last_reward\<close> after the update operation has been run with
  the given values of \<^verbatim>\<open>new_reward\<close>, in that order.
\<close>

definition read_last_reward :: "ppo_model \<Rightarrow> real list \<Rightarrow> real" where
  "read_last_reward m updates = fold update_reward updates (last_reward m)"

text \<open>
  The features of one stage in the order of the source: one block per camera, in the
  order of the cameras, then the block of the vector observation.
\<close>

definition stage_features :: "brain \<Rightarrow> stage \<Rightarrow> tensor" where
  "stage_features br st =
     map (\<lambda>i. (VisualFeatures st i, 128)) [0..<nat (number_visual_observations br)]
     @ (if vector_observation_space_size br * num_stacked_vector_observations br > 0
        then [(VectorFeatures st, 128)] else [])"

section \<open>Example inputs\<close>

text \<open>
  A batch of two timesteps with one action dimension; the second timestep is masked
  out, and every probability ratio is exactly 1.
\<close>

definition example_batch :: batch where
  "example_batch = \<lparr>probs = [ [1 / 2 + 1 / 10 ^ 10], [1 / 4 + 1 / 10 ^ 10] ],
     old_probs = [ [1 / 2], [1 / 4] ], value = [ [1], [5] ], entropy = [2, 7],
     returns_holder = [3, 1], advantage = [ [3], [2] ], old_value = [2, 4],
     mask_input = [1, 0]\<rparr>"

text \<open>The same batch with every timestep masked out.\<close>

definition example_batch_masked_out :: batch where
  "example_batch_masked_out = example_batch\<lparr>mask_input := [0, 0]\<rparr>"

text \<open>
  The default arguments of the constructor, and the brain of the end-to-end scenario:
  a vector observation of size 4, three discrete actions, no camera.
\<close>

definition default_arguments :: arguments where
  "default_arguments = \<lparr>lr = 1 / 10 ^ 4, h_size = 128, epsilon = 0.2, beta = 1 / 10 ^ 3,
     max_step = 5000000, normalize_flag = False, use_recurrent = False, num_layers = 2,
     m_size = 0, use_curiosity = False\<rparr>"

definition vector_brain :: brain where
  "vector_brain = \<lparr>vector_observation_space_size = 4, num_stacked_vector_observations = 1,
     vector_action_space_size = 3, vector_action_space_type = ''discrete'',
     number_visual_observations = 0, camera_resolutions = []\<rparr>"

text \<open>The same brain with one camera added.\<close>

definition camera_brain :: brain where
  "camera_brain = vector_brain\<lparr>number_visual_observations := 1,
     camera_resolutions := [\<lparr>height = 84, width = 84, blackAndWhite = False\<rparr>]\<rparr>"

section \<open>Properties of the schedules\<close>

lemma polynomial_decay_start:
  assumes "0 < D"
  shows "polynomial_decay init 0 D fl 1 = Val init"
  using assms by (simp add: polynomial_decay_def)

lemma polynomial_decay_floor:
  assumes "0 < D" and "D \<le> real n"
  shows "polynomial_decay init n D fl 1 = Val fl"
  using assms by (simp add: polynomial_decay_def min_def)

lemma polynomial_decay_value:
  assumes "0 < D"
  shows "polynomial_decay init n D fl 1
           = Val ((init - fl) * (1 - min (real n) D / D) + fl)"
proof -
  have "min (real n) D / D \<le> 1"
    using assms by (simp add: min_def)
  then have "(1 - min (real n) D / D) powr 1 = 1 - min (real n) D / D"
    by (simp add: powr_one)
  then show ?thesis
    using assms by (simp add: polynomial_decay_def Let_def)
qed

lemma polynomial_decay_mono:
  assumes "0 < D" and "fl \<le> init" and "n \<le> m"
  shows "\<exists>a b. polynomial_decay init n D fl 1 = Val a
             \<and> polynomial_decay init m D fl 1 = Val b \<and> b \<le> a \<and> fl \<le> b"
proof -
  let ?p = "\<lambda>k. min (real k) D / D"
  have le: "?p n \<le> ?p m"
    using assms(1,3) by (simp add: divide_right_mono min_def)
  have "?p m \<le> 1"
    using assms(1) by (simp add: min_def)
  then have nonneg: "0 \<le> 1 - ?p m" by simp
  have c: "0 \<le> init - fl" using assms(2) by simp
  from le have "1 - ?p m \<le> 1 - ?p n" by simp
  then have "(init - fl) * (1 - ?p m) \<le> (init - fl) * (1 - ?p n)"
    using c by (rule mult_left_mono)
  moreover have "0 \<le> (init - fl) * (1 - ?p m)"
    using c nonneg by (rule mult_nonneg_nonneg)
  ultimately show ?thesis
    by (simp add: polynomial_decay_value [OF assms(1)])
qed

text \<open>
  Claim C4, as amended. When the horizon \<open>max_step\<close> is positive, each of the three
  schedules has its configured initial value at step 0 and has exactly its floor
  (\<^verbatim>\<open>1e-10\<close> for the learning rate, \<^verbatim>\<open>0.1\<close> for the clip epsilon, \<^verbatim>\<open>1e-5\<close> for the
  entropy coefficient) at every step from \<open>max_step\<close> on. When moreover the configured
  initial value is not below the floor, the schedule is non-increasing in the step and
  never below the floor.
\<close>

theorem schedules_decay_to_floor:
  assumes "0 < D"
  shows "learning_rate l0 D 0 = Val l0
       \<and> decay_epsilon e0 D 0 = Val e0
       \<and> decay_beta b0 D 0 = Val b0
       \<and> (D \<le> real k \<longrightarrow>
            learning_rate l0 D k = Val tiny
          \<and> decay_epsilon e0 D k = Val (1 / 10)
          \<and> decay_beta b0 D k = Val (1 / 10 ^ 5))
       \<and> (n \<le> m \<and> tiny \<le> l0 \<longrightarrow>
            (\<exists>a b. learning_rate l0 D n = Val a
                 \<and> learning_rate l0 D m = Val b \<and> b \<le> a \<and> tiny \<le> b))
       \<and> (n \<le> m \<and> 1 / 10 \<le> e0 \<longrightarrow>
            (\<exists>a b. decay_epsilon e0 D n = Val a
                 \<and> decay_epsilon e0 D m = Val b \<and> b \<le> a \<and> 1 / 10 \<le> b))
       \<and> (n \<le> m \<and> 1 / 10 ^ 5 \<le> b0 \<longrightarrow>
            (\<exists>a b. decay_beta b0 D n = Val a
                 \<and> decay_beta b0 D m = Val b \<and> b \<le> a \<and> 1 / 10 ^ 5 \<le> b))"
  unfolding learning_rate_def decay_epsilon_def decay_beta_def
  using polynomial_decay_start [OF assms] polynomial_decay_floor [OF assms]
    polynomial_decay_mono [OF assms]
  by blast

theorem schedules_decay_to_floor_witness:
  "learning_rate (1 / 10 ^ 4) 10 0 = Val (1 / 10 ^ 4)
   \<and> decay_epsilon (1 / 5) 10 0 = Val (1 / 5)
   \<and> decay_beta (1 / 10 ^ 3) 10 0 = Val (1 / 10 ^ 3)
   \<and> learning_rate (1 / 10 ^ 4) 10 12 = Val tiny
   \<and> decay_epsilon (1 / 5) 10 12 = Val (1 / 10)
   \<and> decay_beta (1 / 10 ^ 3) 10 12 = Val (1 / 10 ^ 5)
   \<and> (\<exists>a b. learning_rate (1 / 10 ^ 4) 10 3 = Val a
           \<and> learning_rate (1 / 10 ^ 4) 10 5 = Val b \<and> b \<le> a \<and> tiny \<le> b)
   \<and> (\<exists>a b. decay_epsilon (1 / 5) 10 3 = Val a
           \<and> decay_epsilon (1 / 5) 10 5 = Val b \<and> b \<le> a \<and> 1 / 10 \<le> b)
   \<and> (\<exists>a b. decay_beta (1 / 10 ^ 3) 10 3 = Val a
           \<and> decay_beta (1 / 10 ^ 3) 10 5 = Val b \<and> b \<le> a \<and> 1 / 10 ^ 5 \<le> b)"
proof -
  have h: "(0::real) < 10" by simp
  show ?thesis
    using schedules_decay_to_floor [OF h, of "1 / 10 ^ 4" "1 / 5" "1 / 10 ^ 3" 12 3 5]
    by (simp add: tiny_def)
qed

text \<open>
  The claim as stated fails when the configured value is below the floor: with
  \<open>epsilon = 0.05\<close> and \<open>max_step = 10\<close> the clip epsilon is \<open>0.05\<close> at step 0, below the
  floor \<open>0.1\<close>, and rises to \<open>0.1\<close> at step 10.
\<close>

theorem schedule_increasing_counterexample:
  "decay_epsilon (1 / 20) 10 0 = Val (1 / 20)
   \<and> decay_epsilon (1 / 20) 10 10 = Val (1 / 10)
   \<and> (1 / 20 :: real) < 1 / 10"
  by (simp add: decay_epsilon_def polynomial_decay_def)

section \<open>Tensors as tables\<close>

text \<open>
  A tensor whose shape is known is the table of its entries; on tables of one shape the
  element-wise operations and the mask act index by index.
\<close>

lemma map2_tab: "map2 f (map g ts) (map h ts) = map (\<lambda>t. f (g t) (h t)) ts"
  by (induction ts) simp_all

lemma broadcast_tab:
  "broadcast f (map g ts) (map h ts) = Some (map (\<lambda>t. f (g t) (h t)) ts)"
  by (simp add: broadcast_def map2_tab)

lemma boolean_mask_tab:
  "boolean_mask (map g ts) (map p ts) = Some (map g (filter p ts))"
  by (induction ts) (simp_all add: boolean_mask_def)

lemma those_tab: "those (map (\<lambda>t. Some (g t)) ts) = Some (map g ts)"
  by (induction ts) simp_all

lemma broadcast_col: "broadcast f xs [a] = Some (map (\<lambda>x. f x a) xs)"
proof (cases "length xs = 1")
  case True
  then obtain x where "xs = [x]" by (cases xs) auto
  then show ?thesis by (simp add: broadcast_def)
next
  case False
  then show ?thesis by (simp add: broadcast_def)
qed

lemma broadcast2_tab:
  "broadcast2 f (map (\<lambda>t. map (g t) js) ts) (map (\<lambda>t. map (h t) js) ts)
     = Some (map (\<lambda>t. map (\<lambda>j. f (g t j) (h t j)) js) ts)"
  by (simp add: broadcast2_def broadcast_tab those_tab)

lemma broadcast2_col:
  "broadcast2 f (map (\<lambda>t. map (g t) js) ts) (map (\<lambda>t. [a t]) ts)
     = Some (map (\<lambda>t. map (\<lambda>j. f (g t j) (a t)) js) ts)"
  by (simp add: broadcast2_def broadcast_tab broadcast_col those_tab comp_def)

lemma tab: "length xs = n \<Longrightarrow> xs = map ((!) xs) [0..<n]"
  by (auto simp: list_eq_iff_nth_eq)

lemma tab2:
  assumes "length X = n" and "\<forall>t<n. length (X ! t) = A"
  shows "X = map (\<lambda>t. map (\<lambda>j. X ! t ! j) [0..<A]) [0..<n]"
  using assms by (auto simp: list_eq_iff_nth_eq)

lemma tab_col:
  assumes "length X = n" and "\<forall>t<n. length (X ! t) = 1"
  shows "X = map (\<lambda>t. [hd (X ! t)]) [0..<n]"
proof -
  have "X ! t = [hd (X ! t)]" if "t < n" for t
  proof -
    from that assms(2) have "length (X ! t) = 1" by simp
    then show ?thesis by (cases "X ! t") auto
  qed
  then show ?thesis using assms(1) by (auto simp: list_eq_iff_nth_eq)
qed

lemma mask_of_tab:
  "length m = n \<Longrightarrow> mask_of m = map (\<lambda>t. m ! t = 1) [0..<n]"
  by (simp add: mask_of_def list_eq_iff_nth_eq)

lemma masked_timesteps_empty_iff:
  "masked_timesteps m = [] \<longleftrightarrow> (\<forall>t<length m. m ! t \<noteq> 1)"
  by (auto simp: masked_timesteps_def filter_empty_conv)

section \<open>Value loss\<close>

lemma value_loss_tab:
  assumes "length (value b) = n" and "length (old_value b) = n"
    and "length (returns_holder b) = n" and "length (mask_input b) = n"
  shows "value_loss b eps = Some (value_loss_spec b eps)"
proof -
  define V where "V = (\<lambda>t. sum_list (value b ! t))"
  define ov where "ov = (!) (old_value b)"
  define R where "R = (!) (returns_holder b)"
  define M where "M = (\<lambda>t. mask_input b ! t = 1)"
  have v: "reduce_sum_axis1 (value b) = map V [0..<n]"
    unfolding reduce_sum_axis1_def V_def using assms(1) by (simp add: list_eq_iff_nth_eq)
  have o: "old_value b = map ov [0..<n]"
    unfolding ov_def using assms(2) by (rule tab)
  have r: "returns_holder b = map R [0..<n]"
    unfolding R_def using assms(3) by (rule tab)
  have m: "mask_of (mask_input b) = map M [0..<n]"
    unfolding M_def using assms(4) by (rule mask_of_tab)
  have "value_loss b eps = Some (reduce_mean (map
     (\<lambda>t. max (squared_difference (R t) (V t))
        (squared_difference (R t) (ov t + clip_by_value (V t - ov t) (- eps) eps)))
     (filter M [0..<n])))"
    by (simp add: value_loss_def v_opt_a_def v_opt_b_def clipped_value_estimate_def
        v o r m broadcast_tab boolean_mask_tab)
  also have "\<dots> = Some (value_loss_spec b eps)"
    unfolding value_loss_spec_def value_term_def masked_timesteps_def
    by (simp add: V_def ov_def R_def M_def assms(4) squared_difference_def
        power2_eq_square Let_def)
  finally show ?thesis .
qed

lemma reduce_mean_nonneg:
  assumes "xs \<noteq> []" and "\<forall>x\<in>set xs. 0 \<le> x"
  shows "\<exists>v. reduce_mean xs = Val v \<and> 0 \<le> v"
  using assms by (simp add: reduce_mean_def sum_list_nonneg)

lemma value_term_nonneg: "0 \<le> value_term b eps t"
  by (simp add: value_term_def Let_def max_def)

lemma value_loss_spec_nonneg:
  assumes "t < length (mask_input b)" and "mask_input b ! t = 1"
  shows "\<exists>v. value_loss_spec b eps = Val v \<and> 0 \<le> v"
  unfolding value_loss_spec_def
proof (rule reduce_mean_nonneg)
  show "map (value_term b eps) (masked_timesteps (mask_input b)) \<noteq> []"
    using assms by (auto simp: masked_timesteps_empty_iff)
  show "\<forall>x\<in>set (map (value_term b eps) (masked_timesteps (mask_input b))). 0 \<le> x"
    by (simp add: value_term_nonneg)
qed

lemma value_loss_spec_NaN:
  assumes "\<forall>t<length (mask_input b). mask_input b ! t \<noteq> 1"
  shows "value_loss_spec b eps = NaN"
  using assms by (simp add: value_loss_spec_def reduce_mean_def masked_timesteps_empty_iff)

text \<open>
  Claim C3, as amended. For every batch of returns, old value estimates, current value
  estimates and mask of a common length, the value loss is the mean, over the timesteps
  whose mask is 1, of the larger of (a) the squared error between the return and the
  current estimate and (b) the squared error between the return and the old estimate
  plus the change (current - old) clipped to \<open>\<plusminus>eps\<close>. It is a number \<open>\<ge> 0\<close> whenever
  at least one timestep has mask 1; when none has, the mean is taken over an empty
  selection and the value loss is NaN.
\<close>

theorem value_loss_clipped_mean:
  assumes "length (value b) = n" and "length (old_value b) = n"
    and "length (returns_holder b) = n" and "length (mask_input b) = n"
  shows "value_loss b eps = Some (value_loss_spec b eps)
       \<and> ((\<exists>t<n. mask_input b ! t = 1) \<longrightarrow> (\<exists>v. value_loss b eps = Some (Val v) \<and> 0 \<le> v))
       \<and> ((\<forall>t<n. mask_input b ! t \<noteq> 1) \<longrightarrow> value_loss b eps = Some NaN)"
  using value_loss_tab [OF assms, of eps] value_loss_spec_nonneg [of _ b eps]
    value_loss_spec_NaN [of b eps] assms(4)
  by auto

theorem value_loss_clipped_mean_witness:
  "value_loss example_batch (1 / 5) = Some (value_loss_spec example_batch (1 / 5))
   \<and> (\<exists>v. value_loss example_batch (1 / 5) = Some (Val v) \<and> 0 \<le> v)
   \<and> value_loss example_batch_masked_out (1 / 5) = Some NaN"
proof -
  have s1: "length (value example_batch) = 2" "length (old_value example_batch) = 2"
    "length (returns_holder example_batch) = 2" "length (mask_input example_batch) = 2"
    by (simp_all add: example_batch_def)
  have s2: "length (value example_batch_masked_out) = 2"
    "length (old_value example_batch_masked_out) = 2"
    "length (returns_holder example_batch_masked_out) = 2"
    "length (mask_input example_batch_masked_out) = 2"
    by (simp_all add: example_batch_masked_out_def example_batch_def)
  have m1: "\<exists>t<2. mask_input example_batch ! t = 1"
    by (rule exI [of _ 0]) (simp add: example_batch_def)
  have m2: "\<forall>t<2. mask_input example_batch_masked_out ! t \<noteq> 1"
    by (simp add: example_batch_masked_out_def less_2_cases_iff)
  show ?thesis
    using value_loss_clipped_mean [OF s1, of "1 / 5"] value_loss_clipped_mean [OF s2, of "1 / 5"]
      m1 m2
    by blast
qed

text \<open>
  The claim as stated (the value loss is \<open>\<ge> 0\<close> always) fails on a batch in which no
  timestep has mask 1: the masked tensor is empty and its mean is NaN.
\<close>

theorem value_loss_counterexample:
  "value_loss \<lparr>probs = [ [1 / 2] ], old_probs = [ [1 / 2] ], value = [ [1] ], entropy = [2],
      returns_holder = [3], advantage = [ [3] ], old_value = [2], mask_input = [0]\<rparr> (1 / 5)
   = Some NaN"
  by (simp add: value_loss_def v_opt_a_def v_opt_b_def clipped_value_estimate_def
      reduce_sum_axis1_def broadcast_def boolean_mask_def mask_of_def reduce_mean_def)

section \<open>Policy loss\<close>

lemma policy_loss_tab:
  assumes "length (probs b) = n" and "length (old_probs b) = n"
    and "length (advantage b) = n" and "length (mask_input b) = n"
    and "\<forall>t<n. length (probs b ! t) = A" and "\<forall>t<n. length (old_probs b ! t) = A"
    and "\<forall>t<n. length (advantage b ! t) = 1"
  shows "policy_loss b eps = Some (policy_loss_spec b eps)"
proof -
  define P where "P = (\<lambda>t j. probs b ! t ! j)"
  define Q where "Q = (\<lambda>t j. old_probs b ! t ! j)"
  define a where "a = (\<lambda>t. hd (advantage b ! t))"
  define M where "M = (\<lambda>t. mask_input b ! t = 1)"
  define tm where "tm = (\<lambda>t j. min (P t j / (Q t j + tiny) * a t)
          (clip_by_value (P t j / (Q t j + tiny)) (1 - eps) (1 + eps) * a t))"
  have p: "probs b = map (\<lambda>t. map (P t) [0..<A]) [0..<n]"
    unfolding P_def using assms(1,5) by (rule tab2)
  have q: "old_probs b = map (\<lambda>t. map (Q t) [0..<A]) [0..<n]"
    unfolding Q_def using assms(2,6) by (rule tab2)
  have ad: "advantage b = map (\<lambda>t. [a t]) [0..<n]"
    unfolding a_def using assms(3,7) by (rule tab_col)
  have m: "mask_of (mask_input b) = map M [0..<n]"
    unfolding M_def using assms(4) by (rule mask_of_tab)
  have r: "r_theta b = Some (map (\<lambda>t. map (\<lambda>j. P t j / (Q t j + tiny)) [0..<A]) [0..<n])"
    unfolding r_theta_def by (simp add: p q broadcast2_tab comp_def)
  have pa: "p_opt_a b
      = Some (map (\<lambda>t. map (\<lambda>j. P t j / (Q t j + tiny) * a t) [0..<A]) [0..<n])"
    unfolding p_opt_a_def by (simp add: r ad broadcast2_col)
  have pb: "p_opt_b b eps = Some (map (\<lambda>t. map
       (\<lambda>j. clip_by_value (P t j / (Q t j + tiny)) (1 - eps) (1 + eps) * a t) [0..<A]) [0..<n])"
    unfolding p_opt_b_def by (simp add: r ad broadcast2_col comp_def)
  have "policy_loss b eps = Some (lift1 uminus (reduce_mean (concat (map
       (\<lambda>t. map (tm t) [0..<A]) (filter M [0..<n])))))"
    unfolding policy_loss_def tm_def by (simp add: pa pb m broadcast2_tab boolean_mask_tab)
  also have "\<dots> = Some (policy_loss_spec b eps)"
  proof -
    have "map (\<lambda>t. map (policy_term b eps t) [0..<length (probs b ! t)]) (filter M [0..<n])
        = map (\<lambda>t. map (tm t) [0..<A]) (filter M [0..<n])"
      using assms(5) by (auto simp: policy_term_def Let_def P_def Q_def a_def tm_def)
    then have "map (\<lambda>t. map (policy_term b eps t) [0..<length (probs b ! t)])
          (masked_timesteps (mask_input b))
        = map (\<lambda>t. map (tm t) [0..<A]) (filter M [0..<n])"
      unfolding masked_timesteps_def M_def assms(4) .
    then show ?thesis
      unfolding policy_loss_spec_def
      by (rule arg_cong [where f = "\<lambda>x. Some (lift1 uminus (reduce_mean (concat x)))",
            symmetric])
  qed
  finally show ?thesis .
qed

text \<open>With ratio 1 and a non-negative advantage the clipped term is never the smaller one.\<close>

lemma clip_one:
  assumes "0 \<le> (a::real)"
  shows "min (1 * a) (clip_by_value 1 (1 - eps) (1 + eps) * a) = a"
proof -
  have "1 \<le> clip_by_value 1 (1 - eps) (1 + eps)"
    by (simp add: clip_by_value_def max_def min_def)
  then have "1 * a \<le> clip_by_value 1 (1 - eps) (1 + eps) * a"
    using assms by (rule mult_right_mono)
  then show ?thesis by simp
qed

lemma policy_term_ratio_one:
  assumes "probs b ! t ! j / (old_probs b ! t ! j + tiny) = 1"
    and "0 \<le> hd (advantage b ! t)"
  shows "policy_term b eps t j = hd (advantage b ! t)"
  unfolding policy_term_def Let_def assms(1) using assms(2) by (rule clip_one)

lemma sum_list_concat_const:
  "sum_list (concat (map (\<lambda>t. map (\<lambda>j. g t) [0..<A]) ts)) = real A * sum_list (map g ts)"
  by (induction ts) (simp_all add: sum_list_triv algebra_simps)

lemma length_concat_const:
  "length (concat (map (\<lambda>t. map (\<lambda>j. g t) [0..<A]) ts)) = A * length ts"
  by (induction ts) simp_all

lemma reduce_mean_concat_const:
  assumes "0 < A"
  shows "reduce_mean (concat (map (\<lambda>t. map (\<lambda>j. g t) [0..<A]) ts)) = reduce_mean (map g ts)"
proof (cases "ts = []")
  case True
  then show ?thesis by simp
next
  case False
  then have "0 < A * length ts" using assms by simp
  then have "length (concat (map (\<lambda>t. map (\<lambda>j. g t) [0..<A]) ts)) \<noteq> 0"
    by (simp only: length_concat_const)
  then have ne: "concat (map (\<lambda>t. map (\<lambda>j. g t) [0..<A]) ts) \<noteq> []"
    by (simp only: length_0_conv not_False_eq_True)
  show ?thesis
    using False ne assms
    by (simp add: reduce_mean_def sum_list_concat_const length_concat_const)
qed

lemma policy_loss_spec_ratio_one:
  assumes "length (mask_input b) = n"
    and "\<forall>t<n. length (probs b ! t) = A" and "0 < A"
    and "\<forall>t<n. \<forall>j<A. probs b ! t ! j / (old_probs b ! t ! j + tiny) = 1"
    and "\<forall>t<n. 0 \<le> hd (advantage b ! t)"
  shows "policy_loss_spec b eps = lift1 uminus (masked_advantage_mean b)"
proof -
  have row: "map (policy_term b eps t) [0..<length (probs b ! t)]
           = map (\<lambda>j. hd (advantage b ! t)) [0..<A]"
    if "t \<in> set (masked_timesteps (mask_input b))" for t
  proof -
    from that have t: "t < n" by (simp add: masked_timesteps_def assms(1))
    then have len: "length (probs b ! t) = A" using assms(2) by simp
    have "policy_term b eps t j = hd (advantage b ! t)" if "j < A" for j
    proof (rule policy_term_ratio_one)
      show "probs b ! t ! j / (old_probs b ! t ! j + tiny) = 1"
        using assms(4) t that by blast
      show "0 \<le> hd (advantage b ! t)"
        using assms(5) t by blast
    qed
    then show ?thesis unfolding len by simp
  qed
  have eq: "map (\<lambda>t. map (policy_term b eps t) [0..<length (probs b ! t)])
              (masked_timesteps (mask_input b))
      = map (\<lambda>t. map (\<lambda>j. hd (advantage b ! t)) [0..<A]) (masked_timesteps (mask_input b))"
    using row by (rule map_cong [OF refl])
  show ?thesis
    unfolding policy_loss_spec_def masked_advantage_mean_def eq
    by (simp only: reduce_mean_concat_const [OF assms(3)])
qed

text \<open>
  Claim C1. For every batch of current-policy probabilities and old-policy
  probabilities of shape \<^verbatim>\<open>[n, A]\<close> (the old ones non-negative, so that no denominator
  vanishes), advantages of shape \<^verbatim>\<open>[n, 1]\<close> and mask of shape \<^verbatim>\<open>[n]\<close>, the policy loss
  is the negated mean, over the entries of the timesteps whose mask is 1 only, of
  \<open>min (r * advantage) (clip r (1 - eps) (1 + eps) * advantage)\<close> with
  \<open>r = current_prob / (old_prob + 1e-10)\<close>. In particular, when \<open>r\<close> is 1 everywhere
  and every advantage is \<open>\<ge> 0\<close>, the policy loss is the negated mean of the masked
  advantages.
\<close>

theorem policy_loss_clipped_surrogate:
  assumes "length (probs b) = n" and "length (old_probs b) = n"
    and "length (advantage b) = n" and "length (mask_input b) = n"
    and "\<forall>t<n. length (probs b ! t) = A" and "\<forall>t<n. length (old_probs b ! t) = A"
    and "\<forall>t<n. length (advantage b ! t) = 1"
    and "\<forall>t<n. \<forall>j<A. 0 \<le> old_probs b ! t ! j"
  shows "policy_loss b eps = Some (policy_loss_spec b eps)
       \<and> (0 < A \<and> (\<forall>t<n. \<forall>j<A. probs b ! t ! j / (old_probs b ! t ! j + tiny) = 1)
            \<and> (\<forall>t<n. 0 \<le> hd (advantage b ! t))
          \<longrightarrow> policy_loss b eps = Some (lift1 uminus (masked_advantage_mean b)))"
proof -
  have eq: "policy_loss b eps = Some (policy_loss_spec b eps)"
    using assms(1-7) by (rule policy_loss_tab)
  show ?thesis
    unfolding eq using policy_loss_spec_ratio_one [OF assms(4,5)] by blast
qed

theorem policy_loss_clipped_surrogate_witness:
  "policy_loss example_batch (1 / 5) = Some (policy_loss_spec example_batch (1 / 5))
   \<and> policy_loss example_batch (1 / 5) = Some (lift1 uminus (masked_advantage_mean example_batch))
   \<and> masked_advantage_mean example_batch = Val 3"
proof -
  have s: "length (probs example_batch) = 2" "length (old_probs example_batch) = 2"
    "length (advantage example_batch) = 2" "length (mask_input example_batch) = 2"
    "\<forall>t<2. length (probs example_batch ! t) = 1"
    "\<forall>t<2. length (old_probs example_batch ! t) = 1"
    "\<forall>t<2. length (advantage example_batch ! t) = 1"
    "\<forall>t<2. \<forall>j<1. 0 \<le> old_probs example_batch ! t ! j"
    by (simp_all add: example_batch_def less_2_cases_iff)
  have r: "\<forall>t<2. \<forall>j<1. probs example_batch ! t ! j / (old_probs example_batch ! t ! j + tiny) = 1"
    by (simp add: example_batch_def less_2_cases_iff tiny_def)
  have a: "\<forall>t<2. 0 \<le> hd (advantage example_batch ! t)"
    by (simp add: example_batch_def less_2_cases_iff)
  have v: "masked_advantage_mean example_batch = Val 3"
    by (simp add: masked_advantage_mean_def masked_timesteps_def example_batch_def
        reduce_mean_def upt_rec [of 0] upt_rec [of 1] upt_rec [of 2])
  have w: "0 < (1::nat)" by simp
  have "policy_loss example_batch (1 / 5) = Some (policy_loss_spec example_batch (1 / 5))
      \<and> policy_loss example_batch (1 / 5)
          = Some (lift1 uminus (masked_advantage_mean example_batch))"
    using policy_loss_clipped_surrogate [OF s, of "1 / 5"] w r a by blast
  then show ?thesis using v by blast
qed

section \<open>Total loss\<close>

lemma masked_entropy_mean_tab:
  assumes "length (entropy b) = n" and "length (mask_input b) = n"
  shows "masked_entropy_mean b = Some (masked_entropy_mean_spec b)"
proof -
  define E where "E = (!) (entropy b)"
  define M where "M = (\<lambda>t. mask_input b ! t = 1)"
  have e: "entropy b = map E [0..<n]"
    unfolding E_def using assms(1) by (rule tab)
  have m: "mask_of (mask_input b) = map M [0..<n]"
    unfolding M_def using assms(2) by (rule mask_of_tab)
  have "masked_entropy_mean b = Some (reduce_mean (map E (filter M [0..<n])))"
    unfolding masked_entropy_mean_def by (simp add: e m boolean_mask_tab)
  then show ?thesis
    unfolding masked_entropy_mean_spec_def masked_timesteps_def E_def M_def assms(2) .
qed

lemma loss_node_without_curiosity:
  "loss_node False fl il b eps dbeta = loss_node False fl' il' b eps dbeta"
  by (simp add: loss_node_def)

lemma loss_without_curiosity:
  "loss False fl il b e0 b0 D k = loss False fl' il' b e0 b0 D k"
  unfolding loss_def
  by (simp only: loss_node_without_curiosity [of fl il _ _ _ fl' il'])

lemma loss_node_tab:
  assumes "policy_loss b eps = Some pl" and "value_loss b eps = Some vl"
    and "masked_entropy_mean b = Some me"
  shows "loss_node False fl il b eps dbeta
           = Some (lift2 (-) (lift2 (+) pl (lift2 (*) (Val 0.5) vl)) (lift2 (*) dbeta me))"
    and "loss_node True (Some f) (Some i) b eps dbeta
           = Some (lift2 (+)
               (lift2 (-) (lift2 (+) pl (lift2 (*) (Val 0.5) vl)) (lift2 (*) dbeta me))
               (lift2 (*) (Val 10) (lift2 (+) (lift2 (*) (Val 0.2) f) (lift2 (*) (Val 0.8) i))))"
  using assms by (simp_all add: loss_node_def)

text \<open>
  Claim C2. For a batch of the shapes of the graph, in a run in which the schedules
  \<^verbatim>\<open>decay_epsilon\<close> and \<^verbatim>\<open>decay_beta\<close> have the values \<open>e\<close> and \<open>d\<close>, the total loss is
  \<open>policy_loss + 0.5 * value_loss - d * mean(masked entropy)\<close>, where the policy loss and
  the value loss are the means of claims C1 and C3 at the clip range \<open>e\<close> and the last
  term is the mean of the entropy over the timesteps whose mask is 1. With
  \<open>use_curiosity\<close> the term \<open>10 * (0.2 * forward_loss + 0.8 * inverse_loss)\<close> is added.
  Without \<open>use_curiosity\<close> the total loss is the same whatever the curiosity losses
  are. The arithmetic is that of \<open>lift2\<close>: a NaN operand makes the result NaN.
\<close>

theorem loss_total:
  "loss False fl il b e0 b0 D k = loss False fl' il' b e0 b0 D k
   \<and> (length (probs b) = n \<and> length (old_probs b) = n \<and> length (advantage b) = n
        \<and> length (value b) = n \<and> length (old_value b) = n \<and> length (returns_holder b) = n
        \<and> length (entropy b) = n \<and> length (mask_input b) = n
        \<and> (\<forall>t<n. length (probs b ! t) = A) \<and> (\<forall>t<n. length (old_probs b ! t) = A)
        \<and> (\<forall>t<n. length (advantage b ! t) = 1)
        \<and> (\<forall>t<n. \<forall>j<A. 0 \<le> old_probs b ! t ! j)
        \<and> decay_epsilon e0 D k = Val e \<and> decay_beta b0 D k = Val d
      \<longrightarrow> loss False fl il b e0 b0 D k
            = Some (lift2 (-)
                (lift2 (+) (policy_loss_spec b e) (lift2 (*) (Val 0.5) (value_loss_spec b e)))
                (lift2 (*) (Val d) (masked_entropy_mean_spec b)))
        \<and> loss True (Some f) (Some i) b e0 b0 D k
            = Some (lift2 (+)
                (lift2 (-)
                  (lift2 (+) (policy_loss_spec b e) (lift2 (*) (Val 0.5) (value_loss_spec b e)))
                  (lift2 (*) (Val d) (masked_entropy_mean_spec b)))
                (lift2 (*) (Val 10) (lift2 (+) (lift2 (*) (Val 0.2) f) (lift2 (*) (Val 0.8) i)))))"
proof (intro conjI impI)
  show "loss False fl il b e0 b0 D k = loss False fl' il' b e0 b0 D k"
    by (rule loss_without_curiosity)
next
  assume h: "length (probs b) = n \<and> length (old_probs b) = n \<and> length (advantage b) = n
        \<and> length (value b) = n \<and> length (old_value b) = n \<and> length (returns_holder b) = n
        \<and> length (entropy b) = n \<and> length (mask_input b) = n
        \<and> (\<forall>t<n. length (probs b ! t) = A) \<and> (\<forall>t<n. length (old_probs b ! t) = A)
        \<and> (\<forall>t<n. length (advantage b ! t) = 1)
        \<and> (\<forall>t<n. \<forall>j<A. 0 \<le> old_probs b ! t ! j)
        \<and> decay_epsilon e0 D k = Val e \<and> decay_beta b0 D k = Val d"
  have p: "policy_loss b e = Some (policy_loss_spec b e)"
    using h by (intro policy_loss_tab [of b n A]) simp_all
  have v: "value_loss b e = Some (value_loss_spec b e)"
    using h by (intro value_loss_tab [of b n]) simp_all
  have m: "masked_entropy_mean b = Some (masked_entropy_mean_spec b)"
    using h by (intro masked_entropy_mean_tab [of b n]) simp_all
  have s: "decay_epsilon e0 D k = Val e" "decay_beta b0 D k = Val d"
    using h by simp_all
  show "loss False fl il b e0 b0 D k
            = Some (lift2 (-)
                (lift2 (+) (policy_loss_spec b e) (lift2 (*) (Val 0.5) (value_loss_spec b e)))
                (lift2 (*) (Val d) (masked_entropy_mean_spec b)))"
    unfolding loss_def s by (simp add: loss_node_tab(1) [OF p v m])
  show "loss True (Some f) (Some i) b e0 b0 D k
            = Some (lift2 (+)
                (lift2 (-)
                  (lift2 (+) (policy_loss_spec b e) (lift2 (*) (Val 0.5) (value_loss_spec b e)))
                  (lift2 (*) (Val d) (masked_entropy_mean_spec b)))
                (lift2 (*) (Val 10) (lift2 (+) (lift2 (*) (Val 0.2) f) (lift2 (*) (Val 0.8) i))))"
    unfolding loss_def s by (simp add: loss_node_tab(2) [OF p v m])
qed

theorem loss_total_witness:
  "loss False None None example_batch (1 / 5) (1 / 1000) 10 0
     = Some (Val (- 3 + 0.5 * 4 - 1 / 1000 * 2))
   \<and> loss True (Some (Val 6)) (Some (Val 7)) example_batch (1 / 5) (1 / 1000) 10 0
       = Some (Val (- 3 + 0.5 * 4 - 1 / 1000 * 2 + 10 * (0.2 * 6 + 0.8 * 7)))"
proof -
  have s: "length (probs example_batch) = 2 \<and> length (old_probs example_batch) = 2
        \<and> length (advantage example_batch) = 2 \<and> length (value example_batch) = 2
        \<and> length (old_value example_batch) = 2 \<and> length (returns_holder example_batch) = 2
        \<and> length (entropy example_batch) = 2 \<and> length (mask_input example_batch) = 2
        \<and> (\<forall>t<2. length (probs example_batch ! t) = 1)
        \<and> (\<forall>t<2. length (old_probs example_batch ! t) = 1)
        \<and> (\<forall>t<2. length (advantage example_batch ! t) = 1)
        \<and> (\<forall>t<2. \<forall>j<1. 0 \<le> old_probs example_batch ! t ! j)"
    by (simp add: example_batch_def less_2_cases_iff)
  have d: "decay_epsilon (1 / 5) 10 0 = Val (1 / 5)" "decay_beta (1 / 1000) 10 0 = Val (1 / 1000)"
    by (simp_all add: decay_epsilon_def decay_beta_def polynomial_decay_def)
  have u: "[0..<2] = [0, 1]"
    by (simp add: numeral_2_eq_2)
  have p: "policy_loss_spec example_batch (1 / 5) = Val (- 3)"
    by (simp add: policy_loss_spec_def policy_term_def masked_timesteps_def
        example_batch_def reduce_mean_def clip_by_value_def tiny_def u)
  have v: "value_loss_spec example_batch (1 / 5) = Val 4"
    by (simp add: value_loss_spec_def value_term_def masked_timesteps_def example_batch_def
        reduce_mean_def clip_by_value_def power2_eq_square u)
  have m: "masked_entropy_mean_spec example_batch = Val 2"
    by (simp add: masked_entropy_mean_spec_def masked_timesteps_def example_batch_def
        reduce_mean_def u)
  show ?thesis
    using loss_total [of None None example_batch "1 / 5" "1 / 1000" 10 0 None None 2 1
        "1 / 5" "1 / 1000" "Val 6" "Val 7"] s d
    unfolding p v m by simp
qed

section \<open>Forward model: loss and intrinsic reward\<close>

lemma forward_squared_difference_tab:
  assumes "length pred = n" and "length enc = n"
    and "\<forall>t<n. length (pred ! t) = W" and "\<forall>t<n. length (enc ! t) = W"
  shows "forward_squared_difference pred enc
       = Some (map (\<lambda>t. 0.5 * sum_squared_differences pred enc W t) [0..<n])"
proof -
  define P where "P = (\<lambda>t j. pred ! t ! j)"
  define E where "E = (\<lambda>t j. enc ! t ! j)"
  have p: "pred = map (\<lambda>t. map (P t) [0..<W]) [0..<n]"
    unfolding P_def using assms(1,3) by (rule tab2)
  have e: "enc = map (\<lambda>t. map (E t) [0..<W]) [0..<n]"
    unfolding E_def using assms(2,4) by (rule tab2)
  have "forward_squared_difference pred enc
      = Some (map (\<lambda>t. 0.5 * sum_list (map (\<lambda>j. squared_difference (P t j) (E t j)) [0..<W])) [0..<n])"
    unfolding forward_squared_difference_def
    apply (subst p, subst e)
    apply (simp add: broadcast2_tab reduce_sum_axis1_def comp_def)
    done
  then show ?thesis
    by (simp add: sum_squared_differences_def P_def E_def squared_difference_def power2_eq_square)
qed

lemma intrinsic_reward_tab:
  assumes "length pred = n" and "length enc = n"
    and "\<forall>t<n. length (pred ! t) = W" and "\<forall>t<n. length (enc ! t) = W"
  shows "intrinsic_reward pred enc
       = Some (map (\<lambda>t. 0.01 * (0.5 * sum_squared_differences pred enc W t)) [0..<n])"
  unfolding intrinsic_reward_def forward_squared_difference_tab [OF assms]
  by (simp add: comp_def)

lemma forward_loss_tab:
  assumes "length pred = n" and "length enc = n"
    and "\<forall>t<n. length (pred ! t) = W" and "\<forall>t<n. length (enc ! t) = W"
  shows "forward_loss pred enc
       = Some (reduce_mean (map (\<lambda>t. 0.5 * sum_squared_differences pred enc W t) [0..<n]))"
  unfolding forward_loss_def forward_squared_difference_tab [OF assms]
  by simp

text \<open>
  Claim C7, as amended. For every batch of predicted and actual next-state encodings of
  one shape, the intrinsic reward of each example is 0.01 times half of that example's
  sum of squared differences between the predicted and the actual encoding, that is
  0.005 times the sum.
\<close>

theorem intrinsic_reward_per_example:
  assumes "length pred = n" and "length enc = n"
    and "\<forall>t<n. length (pred ! t) = W" and "\<forall>t<n. length (enc ! t) = W"
  shows "intrinsic_reward pred enc
       = Some (map (\<lambda>t. 0.01 * (0.5 * sum_squared_differences pred enc W t)) [0..<n])"
  using assms by (rule intrinsic_reward_tab)

theorem intrinsic_reward_per_example_witness:
  "intrinsic_reward [ [1, 2], [3, 4] ] [ [0, 0], [1, 1] ]
     = Some (map (\<lambda>t. 0.01 * (0.5 * sum_squared_differences [ [1, 2], [3, 4] ] [ [0, 0], [1, 1] ] 2 t))
          [0..<2])"
proof -
  have s: "length [ [1, 2], [3, 4 :: real] ] = 2" "length [ [0, 0], [1, 1 :: real] ] = 2"
    "\<forall>t<2. length ([ [1, 2], [3, 4 :: real] ] ! t) = 2"
    "\<forall>t<2. length ([ [0, 0], [1, 1 :: real] ] ! t) = 2"
    by (simp_all add: less_2_cases_iff)
  show ?thesis
    using intrinsic_reward_per_example [OF s] .
qed

text \<open>
  The claim as stated (0.01 times the sum of squared differences) fails: for the
  prediction \<open>[1]\<close> of the encoding \<open>[0]\<close> the sum of squared differences is 1 and the
  intrinsic reward is \<open>0.005\<close>, not \<open>0.01\<close>.
\<close>

theorem intrinsic_reward_counterexample:
  "intrinsic_reward [ [1] ] [ [0] ] = Some [1 / 200]
   \<and> 0.01 * sum_squared_differences [ [1] ] [ [0] ] 1 0 = 1 / 100"
  by (simp add: intrinsic_reward_def forward_squared_difference_def broadcast2_def
      broadcast_def reduce_sum_axis1_def squared_difference_def sum_squared_differences_def)

section \<open>Inverse model: discrete actions\<close>

lemma sum_list_exp_nonneg: "0 \<le> sum_list (map exp (zs::real list))"
  by (rule sum_list_nonneg) auto

lemma sum_list_exp_pos: "zs \<noteq> [] \<Longrightarrow> 0 < sum_list (map exp (zs::real list))"
  by (cases zs) (simp_all add: add_pos_nonneg sum_list_exp_nonneg)

lemma sum_list_divide: "sum_list (map (\<lambda>z. f z / c) zs) = sum_list (map f zs) / (c::real)"
  by (induction zs) (simp_all add: add_divide_distrib)

lemma softmax_distribution:
  assumes "zs \<noteq> []"
  shows "distribution (length zs) (softmax zs)"
proof -
  have pos: "0 < sum_list (map exp zs)" using assms by (rule sum_list_exp_pos)
  have "sum_list (softmax zs) = 1"
    unfolding softmax_def using pos by (simp add: sum_list_divide)
  moreover have "list_all (\<lambda>p. 0 < p) (softmax zs)"
    unfolding softmax_def using pos by (simp add: list_all_iff)
  ultimately show ?thesis by (simp add: distribution_def softmax_def)
qed

lemma pred_action_discrete_rows:
  assumes "0 < a_size" and "row \<in> set (pred_action_discrete w a_size x)"
  shows "distribution a_size row"
proof -
  from assms(2) obtain x' where row: "row = softmax
      (map (\<lambda>j. sum_list (map2 (\<lambda>xi r. xi * r ! j) x' (kernel w)) + bias w ! j) [0..<a_size])"
    by (auto simp: pred_action_discrete_def dense_def)
  let ?zs = "map (\<lambda>j. sum_list (map2 (\<lambda>xi r. xi * r ! j) x' (kernel w)) + bias w ! j) [0..<a_size]"
  have "?zs \<noteq> []" using assms(1) by simp
  then have "distribution (length ?zs) (softmax ?zs)" by (rule softmax_distribution)
  then show ?thesis unfolding row by simp
qed

lemma inverse_loss_discrete_tab:
  assumes "length pred = n" and "length sel = n"
    and "\<forall>t<n. length (pred ! t) = A" and "\<forall>t<n. length (sel ! t) = A"
  shows "inverse_loss_discrete pred sel
       = Some (reduce_mean (map (cross_entropy_term pred sel A) [0..<n]))"
proof -
  define P where "P = (\<lambda>t j. pred ! t ! j)"
  define S where "S = (\<lambda>t j. sel ! t ! j)"
  have p: "pred = map (\<lambda>t. map (P t) [0..<A]) [0..<n]"
    unfolding P_def using assms(1,3) by (rule tab2)
  have e: "sel = map (\<lambda>t. map (S t) [0..<A]) [0..<n]"
    unfolding S_def using assms(2,4) by (rule tab2)
  have "inverse_loss_discrete pred sel
      = Some (reduce_mean (map (\<lambda>t. sum_list (map (\<lambda>j. - ln (P t j + tiny) * S t j) [0..<A])) [0..<n]))"
    unfolding inverse_loss_discrete_def cross_entropy_def
    apply (subst p, subst e)
    apply (simp add: broadcast2_tab reduce_sum_axis1_def comp_def)
    done
  then show ?thesis
    unfolding cross_entropy_term_def P_def S_def .
qed

lemma one_hot_cross_entropy:
  assumes "list_all (\<lambda>x. x = 0 \<or> x = 1) row"
  shows "sum_list (map (\<lambda>x. - ln (x + tiny) * x) row) = - ln (1 + tiny) * sum_list row"
  using assms by (induction row) (auto simp: algebra_simps)

lemma broadcast_self: "broadcast f (map g xs) xs = Some (map (\<lambda>x. f (g x) x) xs)"
  using broadcast_tab [of f g xs "\<lambda>x. x"] by simp

lemma cross_entropy_self:
  "cross_entropy sel sel = Some (map (\<lambda>row. sum_list (map (\<lambda>x. - ln (x + tiny) * x) row)) sel)"
proof -
  have "broadcast (broadcast (*)) (map (map (\<lambda>p. - ln (p + tiny))) sel) sel
      = Some (map (\<lambda>row. Some (map (\<lambda>x. - ln (x + tiny) * x) row)) sel)"
    by (simp add: broadcast_self)
  then show ?thesis
    by (simp add: cross_entropy_def broadcast2_def those_tab reduce_sum_axis1_def comp_def)
qed

lemma ln_tiny_bounds: "0 \<le> ln (1 + tiny) \<and> ln (1 + tiny) \<le> tiny"
proof -
  have "0 \<le> tiny" by (simp add: tiny_def)
  then show ?thesis by (simp add: ln_add_one_self_le_self)
qed

lemma inverse_loss_one_hot:
  assumes "sel \<noteq> []" and "\<forall>row\<in>set sel. one_hot row"
  shows "inverse_loss_discrete sel sel = Some (Val (- ln (1 + tiny)))"
proof -
  have "sum_list (map (\<lambda>x. - ln (x + tiny) * x) row) = - ln (1 + tiny)"
    if "row \<in> set sel" for row
  proof -
    from that assms(2) have "one_hot row" by blast
    then have "list_all (\<lambda>x. x = 0 \<or> x = 1) row" and "sum_list row = 1"
      by (simp_all add: one_hot_def)
    then show ?thesis using one_hot_cross_entropy [of row] by simp
  qed
  then have eq: "map (\<lambda>row. sum_list (map (\<lambda>x. - ln (x + tiny) * x) row)) sel
      = map (\<lambda>row. - ln (1 + tiny)) sel"
    by (rule map_cong [OF refl])
  have a: "inverse_loss_discrete sel sel
      = Some (reduce_mean (map (\<lambda>row. sum_list (map (\<lambda>x. - ln (x + tiny) * x) row)) sel))"
    unfolding inverse_loss_discrete_def cross_entropy_self by simp
  show ?thesis
    unfolding a eq using assms(1) by (simp add: reduce_mean_def sum_list_triv comp_def)
qed

text \<open>
  Claim C8. For discrete action spaces the predicted action output of the inverse model
  is a softmax distribution (every row has one positive entry per action and sums
  to 1); the inverse loss is the mean over the batch of the per-example cross-entropy
  of that output against the taken action, with \<^verbatim>\<open>1e-10\<close> added inside the logarithm;
  and for a non-empty batch in which the predicted output is exactly the one-hot taken
  action the inverse loss is within \<^verbatim>\<open>1e-10\<close> of 0.
\<close>

theorem inverse_loss_discrete_cross_entropy:
  "(0 < a_size \<longrightarrow> (\<forall>row\<in>set (pred_action_discrete w a_size x). distribution a_size row))
   \<and> (length pred = n \<and> length sel = n
        \<and> (\<forall>t<n. length (pred ! t) = A) \<and> (\<forall>t<n. length (sel ! t) = A)
      \<longrightarrow> inverse_loss_discrete pred sel
            = Some (reduce_mean (map (cross_entropy_term pred sel A) [0..<n])))
   \<and> (hot \<noteq> [] \<and> (\<forall>row\<in>set hot. one_hot row)
      \<longrightarrow> (\<exists>v. inverse_loss_discrete hot hot = Some (Val v) \<and> \<bar>v\<bar> \<le> tiny))"
proof -
  have "\<bar>- ln (1 + tiny)\<bar> \<le> tiny"
    using ln_tiny_bounds by simp
  then show ?thesis
    using pred_action_discrete_rows [of a_size _ w x]
      inverse_loss_discrete_tab [of pred n sel A] inverse_loss_one_hot [of hot]
    by blast
qed

theorem inverse_loss_discrete_cross_entropy_witness:
  "distribution 2 (hd (pred_action_discrete \<lparr>kernel = [ [0, 0] ], bias = [0, 0]\<rparr> 2 [ [1] ]))
   \<and> inverse_loss_discrete [ [1 / 4, 3 / 4], [1 / 2, 1 / 2] ] [ [0, 1], [1, 0] ]
       = Some (reduce_mean (map
           (cross_entropy_term [ [1 / 4, 3 / 4], [1 / 2, 1 / 2] ] [ [0, 1], [1, 0] ] 2) [0..<2]))
   \<and> (\<exists>v. inverse_loss_discrete [ [0, 1], [1, 0] ] [ [0, 1], [1, 0] ] = Some (Val v) \<and> \<bar>v\<bar> \<le> tiny)"
proof -
  have a: "0 < (2::nat)" by simp
  have r: "hd (pred_action_discrete \<lparr>kernel = [ [0, 0] ], bias = [0, 0]\<rparr> 2 [ [1] ])
      \<in> set (pred_action_discrete \<lparr>kernel = [ [0, 0] ], bias = [0, 0]\<rparr> 2 [ [1] ])"
    by (simp add: pred_action_discrete_def dense_def)
  have s: "length [ [1 / 4, 3 / 4], [1 / 2, 1 / 2 :: real] ] = 2"
    "length [ [0, 1], [1, 0 :: real] ] = 2"
    "\<forall>t<2. length ([ [1 / 4, 3 / 4], [1 / 2, 1 / 2 :: real] ] ! t) = 2"
    "\<forall>t<2. length ([ [0, 1], [1, 0 :: real] ] ! t) = 2"
    by (simp_all add: less_2_cases_iff)
  have h: "[ [0, 1], [1, 0 :: real] ] \<noteq> []" "\<forall>row\<in>set [ [0, 1], [1, 0 :: real] ]. one_hot row"
    by (simp_all add: one_hot_def)
  show ?thesis
    using inverse_loss_discrete_cross_entropy [of 2 "\<lparr>kernel = [ [0, 0] ], bias = [0, 0]\<rparr>"
        "[ [1] ]" "[ [1 / 4, 3 / 4], [1 / 2, 1 / 2] ]" 2 "[ [0, 1], [1, 0] ]" 2 "[ [0, 1], [1, 0] ]"]
      a r s h
    by blast
qed

section \<open>Construction: the inverse model\<close>

lemma and_then_simps [simp]:
  "and_then (Inl e) f = Inl e" "and_then (Inr x) f = f x"
  by (simp_all add: and_then_def)

lemma and_then_Inr_iff:
  "and_then r f = Inr y \<longleftrightarrow> (\<exists>x. r = Inr x \<and> f x = Inr y)"
  by (cases r) simp_all

lemma encode_cameras_Inr:
  "encode_cameras cams is = Inr (vs, ns) \<Longrightarrow>
     vs = map (\<lambda>i. [(VisualFeatures Current i, 128)]) is
   \<and> ns = map (\<lambda>i. [(VisualFeatures Next i, 128)]) is"
proof (induction "is" arbitrary: vs ns)
  case Nil
  then show ?case by simp
next
  case (Cons i "is")
  from Cons.prems obtain vs' ns' where
    r: "encode_cameras cams is = Inr (vs', ns')"
    and v: "vs = create_visual_observation_encoder Current i 128 # vs'"
    and n: "ns = create_visual_observation_encoder Next i 128 # ns'"
    by (auto simp: and_then_Inr_iff split: if_splits)
  from Cons.IH [OF r] v n show ?case
    by (simp add: create_visual_observation_encoder_def)
qed

lemma concat_blocks: "concat (map (\<lambda>i. [f i]) is) = map f is"
  by (induction "is") simp_all

lemma visual_part_Inr:
  assumes "visual_part br = Inr (il, es, ens)"
  shows "concat es = map (\<lambda>i. (VisualFeatures Current i, 128)) [0..<nat (number_visual_observations br)]
       \<and> concat ens = map (\<lambda>i. (VisualFeatures Next i, 128)) [0..<nat (number_visual_observations br)]
       \<and> il = es @ ens"
proof (cases "number_visual_observations br > 0")
  case True
  with assms obtain vs ns hv hnv where
    e: "encode_cameras (camera_resolutions br) [0..<nat (number_visual_observations br)] = Inr (vs, ns)"
    and hv: "tf_concat vs = Inr hv" and hnv: "tf_concat ns = Inr hnv"
    and r: "il = [hv, hnv]" "es = [hv]" "ens = [hnv]"
    by (auto simp: visual_part_def Let_def and_then_Inr_iff)
  from encode_cameras_Inr [OF e] hv hnv r show ?thesis
    by (auto simp: tf_concat_def concat_blocks split: if_splits)
next
  case False
  with assms show ?thesis by (auto simp: visual_part_def Let_def)
qed

lemma create_inverse_model_Inr:
  assumes "create_inverse_model br recurrent msize = Inr im"
  shows "encoded_state im = stage_features br Current
       \<and> encoded_next_state im = stage_features br Next
       \<and> (\<exists>pre. combined_input im = pre @ (if recurrent then [(MemoryIn, msize)] else [])
              \<and> MemoryIn \<notin> fst ` set pre)"
proof -
  from assms obtain il es ens where vp: "visual_part br = Inr (il, es, ens)"
    by (auto simp: create_inverse_model_def and_then_Inr_iff)
  obtain il2 es2 ens2 where vec: "vector_part br (il, es, ens) = (il2, es2, ens2)"
    by (cases "vector_part br (il, es, ens)") auto
  from assms vp vec obtain comb where
    c: "tf_concat (if recurrent then il2 @ [memory_in msize] else il2) = Inr comb"
    and e1: "tf_concat es2 = Inr (encoded_state im)"
    and e2: "tf_concat ens2 = Inr (encoded_next_state im)"
    and ci: "combined_input im = comb"
    by (auto simp: create_inverse_model_def and_then_Inr_iff Let_def)
  note v = visual_part_Inr [OF vp]
  have es2: "concat es2 = stage_features br Current"
    using vec v by (auto simp: vector_part_def stage_features_def Let_def
        create_continuous_observation_encoder_def split: if_splits)
  have ens2: "concat ens2 = stage_features br Next"
    using vec v by (auto simp: vector_part_def stage_features_def Let_def
        create_continuous_observation_encoder_def split: if_splits)
  have il2: "concat il2 = concat es @ concat ens @ (if vector_observation_space_size br * num_stacked_vector_observations br > 0
        then [(VectorFeatures Current, 128), (VectorFeatures Next, 128)] else [])"
    using vec v by (auto simp: vector_part_def Let_def
        create_continuous_observation_encoder_def split: if_splits)
  have nomem: "MemoryIn \<notin> fst ` set (concat il2)"
    unfolding il2 using v by (auto simp: image_iff)
  have "comb = concat il2 @ (if recurrent then [(MemoryIn, msize)] else [])"
    using c by (auto simp: tf_concat_def memory_in_def split: if_splits)
  with nomem ci e1 e2 es2 ens2 show ?thesis
    by (auto simp: tf_concat_def split: if_splits)
qed

lemma tensor_width_stage_features:
  "tensor_width (stage_features br Current) = tensor_width (stage_features br Next)"
  by (simp add: tensor_width_def stage_features_def comp_def)

lemma create_forward_model_input:
  assumes "create_forward_model es ens a_size recurrent msize = Inr fm"
  shows "forward_input fm
       = es @ [(SelectedActions, nat a_size)] @ (if recurrent then [(MemoryIn, msize)] else [])"
  using assms
  by (auto simp: create_forward_model_def tf_concat_def selected_actions_def memory_in_def
      Let_def split: if_splits)

text \<open>
  Claim C9, as amended. Whenever the inverse model is built, the encoded current state
  and the encoded next state have the same width, and both are the concatenation of
  the visual features (one block per camera, in the order of the cameras) followed by
  the vector features. The memory state is in neither encoding: with a recurrent
  model it is appended only as the last block of the input of the inverse model and,
  whenever the forward model is built, as the last block of its input, after the
  encoded state and the taken action.
\<close>

theorem encodings_same_width_and_order:
  assumes "create_inverse_model br recurrent msize = Inr im"
  shows "tensor_width (encoded_state im) = tensor_width (encoded_next_state im)
       \<and> encoded_state im = stage_features br Current
       \<and> encoded_next_state im = stage_features br Next
       \<and> MemoryIn \<notin> fst ` set (encoded_state im)
       \<and> MemoryIn \<notin> fst ` set (encoded_next_state im)
       \<and> (\<exists>pre. combined_input im = pre @ (if recurrent then [(MemoryIn, msize)] else [])
              \<and> MemoryIn \<notin> fst ` set pre)
       \<and> (\<forall>fm. create_forward_model (encoded_state im) (encoded_next_state im)
                 (vector_action_space_size br) recurrent msize = Inr fm
             \<longrightarrow> forward_input fm
                 = encoded_state im @ [(SelectedActions, nat (vector_action_space_size br))]
                   @ (if recurrent then [(MemoryIn, msize)] else []))"
proof -
  note r = create_inverse_model_Inr [OF assms]
  have "MemoryIn \<notin> fst ` set (stage_features br st)" for st
    by (auto simp: stage_features_def)
  with r tensor_width_stage_features [of br] create_forward_model_input
  show ?thesis by simp
qed

theorem encodings_same_width_and_order_witness:
  "tensor_width [(VisualFeatures Current 0, 128), (VectorFeatures Current, 128)]
     = tensor_width [(VisualFeatures Next 0, 128), (VectorFeatures Next, 128)]
   \<and> [(VisualFeatures Current 0, 128), (VectorFeatures Current, 128)]
       = stage_features camera_brain Current
   \<and> [(VisualFeatures Next 0, 128), (VectorFeatures Next, 128)]
       = stage_features camera_brain Next
   \<and> forward_input
        \<lparr>forward_input = [(VectorFeatures Current, 128), (SelectedActions, 3), (MemoryIn, 256)],
         forward_layers = [\<lparr>units = 128, activation = Swish\<rparr>,
                           \<lparr>units = 128, activation = Linear\<rparr>]\<rparr>
       = [(VectorFeatures Current, 128)] @ [(SelectedActions, nat 3)] @ [(MemoryIn, 256)]"
proof -
  have c: "create_inverse_model camera_brain True 256
     = Inr \<lparr>combined_input = [(VisualFeatures Current 0, 128), (VisualFeatures Next 0, 128),
               (VectorFeatures Current, 128), (VectorFeatures Next, 128), (MemoryIn, 256)],
            pred_action = \<lparr>units = 3, activation = Softmax\<rparr>,
            encoded_state = [(VisualFeatures Current 0, 128), (VectorFeatures Current, 128)],
            encoded_next_state = [(VisualFeatures Next 0, 128), (VectorFeatures Next, 128)]\<rparr>"
    by (simp add: create_inverse_model_def visual_part_def vector_part_def vector_brain_def
        camera_brain_def tf_concat_def memory_in_def create_continuous_observation_encoder_def
        create_visual_observation_encoder_def Let_def)
  have v: "create_inverse_model vector_brain True 256
     = Inr \<lparr>combined_input = [(VectorFeatures Current, 128), (VectorFeatures Next, 128),
               (MemoryIn, 256)],
            pred_action = \<lparr>units = 3, activation = Softmax\<rparr>,
            encoded_state = [(VectorFeatures Current, 128)],
            encoded_next_state = [(VectorFeatures Next, 128)]\<rparr>"
    by (simp add: create_inverse_model_def visual_part_def vector_part_def vector_brain_def
        tf_concat_def memory_in_def create_continuous_observation_encoder_def Let_def)
  have f: "create_forward_model [(VectorFeatures Current, 128)] [(VectorFeatures Next, 128)]
       (vector_action_space_size vector_brain) True 256
     = Inr \<lparr>forward_input = [(VectorFeatures Current, 128), (SelectedActions, 3), (MemoryIn, 256)],
            forward_layers = [\<lparr>units = 128, activation = Swish\<rparr>,
                              \<lparr>units = 128, activation = Linear\<rparr>]\<rparr>"
    by (simp add: create_forward_model_def tf_concat_def selected_actions_def memory_in_def
        tensor_width_def vector_brain_def Let_def)
  have g: "vector_action_space_size vector_brain = 3"
    by (simp add: vector_brain_def)
  have "[(VisualFeatures Current 0, 128), (VectorFeatures Current, 128)]
       = stage_features camera_brain Current
     \<and> [(VisualFeatures Next 0, 128), (VectorFeatures Next, 128)]
       = stage_features camera_brain Next
     \<and> tensor_width [(VisualFeatures Current 0, 128), (VectorFeatures Current, 128)]
       = tensor_width [(VisualFeatures Next 0, 128), (VectorFeatures Next, 128)]"
    using encodings_same_width_and_order [OF c]
    by (auto simp only: inverse_model.select_convs)
  moreover have "forward_input
        \<lparr>forward_input = [(VectorFeatures Current, 128), (SelectedActions, 3), (MemoryIn, 256)],
         forward_layers = [\<lparr>units = 128, activation = Swish\<rparr>,
                           \<lparr>units = 128, activation = Linear\<rparr>]\<rparr>
       = [(VectorFeatures Current, 128)] @ [(SelectedActions, nat 3)] @ [(MemoryIn, 256)]"
    using encodings_same_width_and_order [OF v] f
    by (simp only: inverse_model.select_convs g if_True)
  ultimately show ?thesis by blast
qed

text \<open>
  The claim as stated (the memory state is the last part of both encodings when the
  model is recurrent) fails: for the recurrent model of a brain with a vector
  observation only, each encoding is the block of vector features alone, and the memory
  state appears in the input of the inverse model, not in the encodings.
\<close>

theorem encodings_without_memory_counterexample:
  "create_inverse_model vector_brain True 256
     = Inr \<lparr>combined_input = [(VectorFeatures Current, 128), (VectorFeatures Next, 128),
               (MemoryIn, 256)],
            pred_action = \<lparr>units = 3, activation = Softmax\<rparr>,
            encoded_state = [(VectorFeatures Current, 128)],
            encoded_next_state = [(VectorFeatures Next, 128)]\<rparr>"
  by (simp add: create_inverse_model_def visual_part_def vector_part_def vector_brain_def
      tf_concat_def memory_in_def create_continuous_observation_encoder_def Let_def)

section \<open>Construction: the forward model\<close>

text \<open>The constructor when the builders of the base class succeed.\<close>

lemma PPOModel_init_unfold:
  "PPOModel_init br args =
     (let nlayers = (if num_layers args < 1 then 1 else num_layers args);
          ac = (if vector_action_space_type br = ''continuous''
                then create_cc_actor_critic (h_size args) nlayers
                else create_dc_actor_critic (h_size args) nlayers)
      in and_then
           (if use_curiosity args
            then and_then (create_inverse_model br (use_recurrent args) (m_size args)) (\<lambda>im.
                 and_then (create_forward_model (encoded_state im) (encoded_next_state im)
                             (vector_action_space_size br) (use_recurrent args) (m_size args))
                   (\<lambda>fm. Inr (Some im, Some fm)))
            else Inr (None, None))
           (\<lambda>(im, fm). Inr \<lparr>policy = ac, last_reward = create_reward_encoder,
                               inverse = im, forward = fm\<rparr>))"
  by (simp add: PPOModel_init_def PPOModel_init_with_def succeeding_builders_def Let_def)

lemma create_forward_model_Inr:
  assumes "create_forward_model es ens a_size recurrent msize = Inr fm"
  shows "forward_layers fm = [\<lparr>units = 128, activation = Swish\<rparr>, \<lparr>units = 128, activation = Linear\<rparr>]
       \<and> (tensor_width ens = 128 \<or> tensor_width ens = 1)"
  using assms
  by (auto simp: create_forward_model_def tf_concat_def Let_def split: if_splits)

text \<open>
  Claim C6 at the brain with one camera and a vector observation, with curiosity: the
  encoded next state has width 256 (128 per modality), the output layer of the forward
  model has the fixed width 128, and construction stops with the shape error of
  \<^verbatim>\<open>tf.squared_difference\<close>.
\<close>

theorem forward_model_width_mismatch:
  "PPOModel_init camera_brain (default_arguments\<lparr>use_curiosity := True\<rparr>)
     = Inl (IncompatibleShapes 128 256)
   \<and> tensor_width (stage_features camera_brain Next) = 256"
proof -
  have c: "create_inverse_model camera_brain False 0
     = Inr \<lparr>combined_input = [(VisualFeatures Current 0, 128), (VisualFeatures Next 0, 128),
               (VectorFeatures Current, 128), (VectorFeatures Next, 128)],
            pred_action = \<lparr>units = 3, activation = Softmax\<rparr>,
            encoded_state = [(VisualFeatures Current 0, 128), (VectorFeatures Current, 128)],
            encoded_next_state = [(VisualFeatures Next 0, 128), (VectorFeatures Next, 128)]\<rparr>"
    by (simp add: create_inverse_model_def visual_part_def vector_part_def vector_brain_def
        camera_brain_def tf_concat_def memory_in_def create_continuous_observation_encoder_def
        create_visual_observation_encoder_def Let_def)
  have "PPOModel_init camera_brain (default_arguments\<lparr>use_curiosity := True\<rparr>)
     = Inl (IncompatibleShapes 128 256)"
    by (simp add: PPOModel_init_unfold c default_arguments_def create_forward_model_def
        tf_concat_def tensor_width_def Let_def selected_actions_def)
  moreover have "tensor_width (stage_features camera_brain Next) = 256"
    by (simp add: tensor_width_def stage_features_def camera_brain_def vector_brain_def)
  ultimately show ?thesis by simp
qed

section \<open>Construction: the constructor\<close>











section \<open>The reward tracker\<close>

lemma PPOModel_init_reward:
  assumes "PPOModel_init br args = Inr m"
  shows "last_reward m = create_reward_encoder"
  using assms by (auto simp: PPOModel_init_unfold Let_def and_then_Inr_iff split: if_splits)

text \<open>
  Claim C10. The variable \<^verbatim>\<open>last_reward\<close> is created with the value 0: for every model
  the constructor returns, reading it before the update operation has run gives 0.
\<close>

theorem last_reward_initially_zero:
  assumes "PPOModel_init br args = Inr m"
  shows "read_last_reward m [] = 0"
  using PPOModel_init_reward [OF assms]
  by (simp add: read_last_reward_def create_reward_encoder_def)

theorem last_reward_initially_zero_witness:
  "read_last_reward
     \<lparr>policy = DiscreteControl 128 2, last_reward = 0, inverse = None, forward = None\<rparr> [] = 0"
proof -
  have c: "PPOModel_init vector_brain default_arguments
     = Inr \<lparr>policy = DiscreteControl 128 2, last_reward = 0, inverse = None, forward = None\<rparr>"
    by (simp add: PPOModel_init_unfold vector_brain_def default_arguments_def
        create_dc_actor_critic_def create_reward_encoder_def)
  show ?thesis
    using last_reward_initially_zero [OF c] .
qed

end
